theory Spec2Isabelle
  imports Main "HOL-Library.Word"
begin

section \<open>Data model\<close>

text \<open>
  Squares are indices 0 (a1) to 63 (h8). The source's \<open>Position\<close> is an unsigned
  integer used as a board index; it is modelled as \<open>nat\<close>, and every place where the
  source's arithmetic on it could leave the board is written out.
\<close>

type_synonym Position = nat

abbreviation (input) A1 :: Position where "A1 \<equiv> 0"
abbreviation (input) C1 :: Position where "C1 \<equiv> 2"
abbreviation (input) E1 :: Position where "E1 \<equiv> 4"
abbreviation (input) G1 :: Position where "G1 \<equiv> 6"
abbreviation (input) H1 :: Position where "H1 \<equiv> 7"
abbreviation (input) A8 :: Position where "A8 \<equiv> 56"
abbreviation (input) C8 :: Position where "C8 \<equiv> 58"
abbreviation (input) E8 :: Position where "E8 \<equiv> 60"
abbreviation (input) G8 :: Position where "G8 \<equiv> 62"
abbreviation (input) H8 :: Position where "H8 \<equiv> 63"
abbreviation (input) NoPosition :: Position where "NoPosition \<equiv> 0"

datatype Color = NoColor | Black | White

fun Opposite :: "Color \<Rightarrow> Color" where
  "Opposite c = (if c = Black then White else Black)"

datatype CastleStatus = Both | NoneCS | Kingside | Queenside

text \<open>
  Modelled from the spec: the declarations of \<open>Piece\<close> and \<open>NormalizedPiece\<close> are not
  among the sources. The source converts a byte of the position text to a piece
  (\<open>Piece(forStr[i])\<close>) and a piece back to a byte, so a piece is its letter
  (``letters = pieces, case = color''); the empty marker is taken to be the blank.
  A normalized piece is the lower-case letter of the kind.
\<close>

type_synonym Piece = char
type_synonym NormalizedPiece = char

abbreviation (input) NoPiece :: Piece where "NoPiece \<equiv> CHR '' ''"
abbreviation (input) BlackPawn :: Piece where "BlackPawn \<equiv> CHR ''p''"
abbreviation (input) BlackKnight :: Piece where "BlackKnight \<equiv> CHR ''n''"
abbreviation (input) BlackBishop :: Piece where "BlackBishop \<equiv> CHR ''b''"
abbreviation (input) BlackRook :: Piece where "BlackRook \<equiv> CHR ''r''"
abbreviation (input) BlackQueen :: Piece where "BlackQueen \<equiv> CHR ''q''"
abbreviation (input) BlackKing :: Piece where "BlackKing \<equiv> CHR ''k''"
abbreviation (input) WhitePawn :: Piece where "WhitePawn \<equiv> CHR ''P''"
abbreviation (input) WhiteKnight :: Piece where "WhiteKnight \<equiv> CHR ''N''"
abbreviation (input) WhiteBishop :: Piece where "WhiteBishop \<equiv> CHR ''B''"
abbreviation (input) WhiteRook :: Piece where "WhiteRook \<equiv> CHR ''R''"
abbreviation (input) WhiteQueen :: Piece where "WhiteQueen \<equiv> CHR ''Q''"
abbreviation (input) WhiteKing :: Piece where "WhiteKing \<equiv> CHR ''K''"

abbreviation (input) Pawn :: NormalizedPiece where "Pawn \<equiv> CHR ''p''"
abbreviation (input) Knight :: NormalizedPiece where "Knight \<equiv> CHR ''n''"
abbreviation (input) Bishop :: NormalizedPiece where "Bishop \<equiv> CHR ''b''"
abbreviation (input) Rook :: NormalizedPiece where "Rook \<equiv> CHR ''r''"
abbreviation (input) Queen :: NormalizedPiece where "Queen \<equiv> CHR ''q''"
abbreviation (input) King :: NormalizedPiece where "King \<equiv> CHR ''k''"

definition Piece_Color :: "Piece \<Rightarrow> Color" where
  "Piece_Color p =
     (if p \<in> set ''PNBRQK'' then White
      else if p \<in> set ''pnbrqk'' then Black
      else NoColor)"

definition ToNormalizedPiece :: "Piece \<Rightarrow> NormalizedPiece" where
  "ToNormalizedPiece p =
     (if p = WhitePawn then Pawn
      else if p = WhiteKnight then Knight
      else if p = WhiteBishop then Bishop
      else if p = WhiteRook then Rook
      else if p = WhiteQueen then Queen
      else if p = WhiteKing then King
      else p)"

record Move =
  From :: Position
  To :: Position
  Promote :: Piece

definition NewMove :: "Position \<Rightarrow> Position \<Rightarrow> Move" where
  "NewMove f t = \<lparr>From = f, To = t, Promote = NoPiece\<rparr>"

text \<open>
  Modelled from the spec: the type \<open>PiecePositions\<close> and its methods are not among the
  sources. It is the ``denormalized index mapping (color, piece-kind) to the set of
  occupied squares''; the squares of one kind are kept in insertion order, as the
  \<open>map[Color]map[NormalizedPiece][]Position\<close> of the package-main generation keeps them.
\<close>

type_synonym PiecePositions = "Color \<Rightarrow> NormalizedPiece \<Rightarrow> Position list"

definition NewPiecePositions :: PiecePositions where
  "NewPiecePositions = (\<lambda>c k. [])"

definition Positions :: "PiecePositions \<Rightarrow> Color \<Rightarrow> NormalizedPiece \<Rightarrow> Position list" where
  "Positions ps c k = ps c k"

definition AddPosition :: "PiecePositions \<Rightarrow> Piece \<Rightarrow> Position \<Rightarrow> PiecePositions" where
  "AddPosition ps piece pos =
     (let c = Piece_Color piece; k = ToNormalizedPiece piece
      in ps(c := (ps c)(k := ps c k @ [pos])))"

text \<open>
  Modelled from the spec: \<open>PiecePositions.ApplyMove\<close> ``updates the piece-location index
  incrementally (remove-then-add)'': the origin leaves the mover's list, the destination
  leaves the captured kind's list of the other side, and the destination joins the list
  of the piece that now stands there.
\<close>

definition PiecePositions_ApplyMove ::
  "PiecePositions \<Rightarrow> Color \<Rightarrow> Move \<Rightarrow> NormalizedPiece \<Rightarrow> NormalizedPiece \<Rightarrow> PiecePositions" where
  "PiecePositions_ApplyMove ps c move movingPiece capturedPiece =
     (let opp = Opposite c;
          ps1 = ps(c := (ps c)(movingPiece := removeAll (From move) (ps c movingPiece)));
          ps2 = ps1(opp := (ps1 opp)(capturedPiece := removeAll (To move) (ps1 opp capturedPiece)));
          k = (if Promote move = NoPiece then movingPiece else ToNormalizedPiece (Promote move))
      in ps2(c := (ps2 c)(k := ps2 c k @ [To move])))"

text \<open>
  Go's \<open>int\<close> is taken to be 64 bits wide: the clocks are \<open>64 word\<close>, so \<open>+\<close> wraps
  as the source's does.
\<close>

record FEN =
  Board :: "Piece list"
  Pieces :: PiecePositions
  ToMove :: Color
  WhiteCastleStatus :: CastleStatus
  BlackCastleStatus :: CastleStatus
  EnPassantVulnerable :: Position
  HalfmoveClock :: "64 word"
  Fullmove :: "64 word"
  Line :: "Move list"

datatype error =
    IndexOutOfRange
  | InvalidCastle
  | StepBoundExceeded
  | DivideByZero
  | ParseError

section \<open>ApplyMove (package chess\_engine)\<close>

text \<open>
  The \<open>switch movingPiece\<close> block of \<open>ApplyMove\<close>: the new castling statuses of White
  and Black, or the panic of an illegal castle.
\<close>

definition castleSwitch ::
  "Piece \<Rightarrow> Move \<Rightarrow> CastleStatus \<Rightarrow> CastleStatus \<Rightarrow> error + (CastleStatus \<times> CastleStatus)" where
  "castleSwitch movingPiece move wCastle bCastle =
     (if movingPiece = BlackRook then
        (if From move = A8 then
           Inr (wCastle, (case bCastle of Both \<Rightarrow> Kingside | Queenside \<Rightarrow> NoneCS | c \<Rightarrow> c))
         else if From move = H8 then
           Inr (wCastle, (case bCastle of Both \<Rightarrow> Queenside | Kingside \<Rightarrow> NoneCS | c \<Rightarrow> c))
         else Inr (wCastle, bCastle))
      else if movingPiece = BlackKing then
        (if From move = E8 \<and> To move = G8 then
           (if bCastle \<noteq> Kingside \<and> bCastle \<noteq> Both then Inl InvalidCastle
            else Inr (wCastle, NoneCS))
         else if From move = E8 \<and> To move = C8 then
           (if bCastle \<noteq> Queenside \<and> bCastle \<noteq> Both then Inl InvalidCastle
            else Inr (wCastle, NoneCS))
         else Inr (wCastle, NoneCS))
      else if movingPiece = WhiteRook then
        (if From move = A1 then
           Inr ((case wCastle of Both \<Rightarrow> Kingside | Queenside \<Rightarrow> NoneCS | c \<Rightarrow> c), bCastle)
         else if From move = H1 then
           Inr ((case wCastle of Both \<Rightarrow> Queenside | Kingside \<Rightarrow> NoneCS | c \<Rightarrow> c), bCastle)
         else Inr (wCastle, bCastle))
      else if movingPiece = WhiteKing then
        (if From move = E1 \<and> To move = G1 then
           (if wCastle \<noteq> Kingside \<and> wCastle \<noteq> Both then Inl InvalidCastle
            else Inr (NoneCS, bCastle))
         else if From move = E1 \<and> To move = C1 then
           (if wCastle \<noteq> Queenside \<and> wCastle \<noteq> Both then Inl InvalidCastle
            else Inr (NoneCS, bCastle))
         else Inr (NoneCS, bCastle))
      else Inr (wCastle, bCastle))"

text \<open>
  \<open>ApplyMove\<close>. The new board is a 64-slot copy of the receiver's, so the copy loop
  panics on a shorter board and the two indexed accesses panic on a square off the board.
\<close>

definition ApplyMove :: "FEN \<Rightarrow> Move \<Rightarrow> error + FEN" where
  "ApplyMove f move =
     (let line = Line f @ [move] in
      if length (Board f) < 64 then Inl IndexOutOfRange
      else let board0 = take 64 (Board f) in
      if \<not> From move < 64 then Inl IndexOutOfRange
      else let movingPiece = board0 ! From move;
               board1 = board0[From move := NoPiece] in
      if \<not> To move < 64 then Inl IndexOutOfRange
      else let capturedPiece = ToNormalizedPiece (board1 ! To move);
               board2 = board1[To move := movingPiece];
               normalizedMovingPiece = ToNormalizedPiece movingPiece;
               board = (if Promote move \<noteq> NoPiece then board2[To move := Promote move] else board2)
      in case castleSwitch movingPiece move (WhiteCastleStatus f) (BlackCastleStatus f) of
           Inl e \<Rightarrow> Inl e
         | Inr (wCastle, bCastle) \<Rightarrow>
             let pieces = PiecePositions_ApplyMove (Pieces f) (ToMove f) move
                            normalizedMovingPiece capturedPiece;
                 fullMove = (if ToMove f = Black then Fullmove f + 1 else Fullmove f)
             in Inr \<lparr>Board = board, Pieces = pieces, ToMove = Opposite (ToMove f),
                     WhiteCastleStatus = wCastle, BlackCastleStatus = bCastle,
                     EnPassantVulnerable = NoPosition,
                     HalfmoveClock = HalfmoveClock f + 1, Fullmove = fullMove,
                     Line = line\<rparr>)"

text \<open>The condition under which the source reaches one of its four castle panics.\<close>

definition illegalCastle :: "FEN \<Rightarrow> Move \<Rightarrow> bool" where
  "illegalCastle f m =
     ((Board f ! From m = WhiteKing \<and> From m = E1 \<and> To m = G1 \<and>
         WhiteCastleStatus f \<noteq> Kingside \<and> WhiteCastleStatus f \<noteq> Both) \<or>
      (Board f ! From m = WhiteKing \<and> From m = E1 \<and> To m = C1 \<and>
         WhiteCastleStatus f \<noteq> Queenside \<and> WhiteCastleStatus f \<noteq> Both) \<or>
      (Board f ! From m = BlackKing \<and> From m = E8 \<and> To m = G8 \<and>
         BlackCastleStatus f \<noteq> Kingside \<and> BlackCastleStatus f \<noteq> Both) \<or>
      (Board f ! From m = BlackKing \<and> From m = E8 \<and> To m = C8 \<and>
         BlackCastleStatus f \<noteq> Queenside \<and> BlackCastleStatus f \<noteq> Both))"

definition onBoard :: "FEN \<Rightarrow> Move \<Rightarrow> bool" where
  "onBoard f m = (length (Board f) = 64 \<and> From m < 64 \<and> To m < 64)"

section \<open>Board geometry\<close>

text \<open>
  \<open>GetFile\<close> and \<open>GetRank\<close> of the source return the bytes \<open>'a' + p % 8\<close> and
  \<open>'0' + p / 8 + 1\<close>; the conversion to a byte is the \<open>mod 256\<close>.
\<close>

abbreviation (input) FileA :: nat where "FileA \<equiv> 97"
abbreviation (input) FileH :: nat where "FileH \<equiv> 104"
abbreviation (input) Rank1 :: nat where "Rank1 \<equiv> 49"
abbreviation (input) Rank2 :: nat where "Rank2 \<equiv> 50"
abbreviation (input) Rank6 :: nat where "Rank6 \<equiv> 54"
abbreviation (input) Rank7 :: nat where "Rank7 \<equiv> 55"
abbreviation (input) Rank8 :: nat where "Rank8 \<equiv> 56"

definition GetRank :: "Position \<Rightarrow> nat" where
  "GetRank p = (p div 8 + 1 + 48) mod 256"

definition GetFile :: "Position \<Rightarrow> nat" where
  "GetFile p = (p mod 8 + 97) mod 256"

text \<open>
  Modelled from the spec: the move tables \<open>PieceMoves\<close>, \<open>MoveVectors\<close> and
  \<open>PawnAttacks\<close> and the methods \<open>GetKnightMoves\<close>, \<open>GetKingMoves\<close>,
  \<open>GetDiagonals\<close> and \<open>GetLines\<close> are not among the sources. They are the ``fixed
  target sets'' of knights and kings, the ``two fixed diagonal targets'' of a pawn, the
  pawn advances ``one or, from the start rank, two squares'' and, for the sliding pieces,
  ``each ray from their square'' up to the edge of the board, nearest square first.
  The order of the targets within a table is a choice of the model.
\<close>

definition inside :: "int \<Rightarrow> int \<Rightarrow> bool" where
  "inside fl rk = (0 \<le> fl \<and> fl < 8 \<and> 0 \<le> rk \<and> rk < 8)"

definition square :: "int \<Rightarrow> int \<Rightarrow> Position" where
  "square fl rk = nat (rk * 8 + fl)"

definition jumps :: "Position \<Rightarrow> (int \<times> int) list \<Rightarrow> Position list" where
  "jumps p ds =
     map (\<lambda>(df, dr). square (int (p mod 8) + df) (int (p div 8) + dr))
       (filter (\<lambda>(df, dr). inside (int (p mod 8) + df) (int (p div 8) + dr)) ds)"

definition rayFrom :: "Position \<Rightarrow> int \<times> int \<Rightarrow> Position list" where
  "rayFrom p d =
     map (\<lambda>k. square (int (p mod 8) + k * fst d) (int (p div 8) + k * snd d))
       (takeWhile (\<lambda>k. inside (int (p mod 8) + k * fst d) (int (p div 8) + k * snd d))
          [1, 2, 3, 4, 5, 6, 7])"

definition diagonalDirs :: "(int \<times> int) list" where
  "diagonalDirs = [(1, 1), (1, -1), (-1, 1), (-1, -1)]"

definition lineDirs :: "(int \<times> int) list" where
  "lineDirs = [(0, 1), (0, -1), (1, 0), (-1, 0)]"

definition GetDiagonals :: "Position \<Rightarrow> Position list list" where
  "GetDiagonals p = (if p < 64 then map (rayFrom p) diagonalDirs else [])"

definition GetLines :: "Position \<Rightarrow> Position list list" where
  "GetLines p = (if p < 64 then map (rayFrom p) lineDirs else [])"

definition GetKnightMoves :: "Position \<Rightarrow> Position list" where
  "GetKnightMoves p =
     (if p < 64 then
        jumps p [(1, 2), (2, 1), (2, -1), (1, -2), (-1, -2), (-2, -1), (-2, 1), (-1, 2)]
      else [])"

definition GetKingMoves :: "Position \<Rightarrow> Position list" where
  "GetKingMoves p =
     (if p < 64 then
        jumps p [(0, 1), (1, 1), (1, 0), (1, -1), (0, -1), (-1, -1), (-1, 0), (-1, 1)]
      else [])"

definition PawnAttacks :: "Color \<Rightarrow> Position \<Rightarrow> Position list" where
  "PawnAttacks c p =
     (if p < 64 then
        (if c = White then jumps p [(-1, 1), (1, 1)]
         else if c = Black then jumps p [(1, -1), (-1, -1)]
         else [])
      else [])"

definition PieceMoves :: "Piece \<Rightarrow> Position \<Rightarrow> Position list" where
  "PieceMoves piece p =
     (if p < 64 then
        (if piece = Knight then GetKnightMoves p
         else if piece = WhitePawn then
           jumps p ([(0, 1)] @ (if p div 8 = 1 then [(0, 2)] else []))
         else if piece = BlackPawn then
           jumps p ([(0, -1)] @ (if p div 8 = 6 then [(0, -2)] else []))
         else [])
      else [])"

definition MoveVectors :: "Piece \<Rightarrow> Position \<Rightarrow> Position list list" where
  "MoveVectors piece p =
     (if piece = Bishop then GetDiagonals p
      else if piece = Rook then GetLines p
      else if piece = Queen then GetDiagonals p @ GetLines p
      else [])"

text \<open>
  Modelled from the spec: \<open>Move.ToPromotions\<close> is not among the sources. ``Any pawn
  move reaching the farthest rank expands into exactly four moves (queen/rook/bishop/
  knight), sharing From/To''; it returns nil for any other move. The method sees the
  squares only, so the far rank decides the colour of the promotion pieces.
\<close>

definition ToPromotions :: "Move \<Rightarrow> Move list option" where
  "ToPromotions m =
     (if To m div 8 = 7 \<and> To m < 64 then
        Some (map (\<lambda>p. m\<lparr>Promote := p\<rparr>) [WhiteKnight, WhiteQueen, WhiteRook, WhiteBishop])
      else if To m div 8 = 0 then
        Some (map (\<lambda>p. m\<lparr>Promote := p\<rparr>) [BlackKnight, BlackQueen, BlackRook, BlackBishop])
      else None)"

text \<open>
  Modelled from the spec: \<open>PiecePositions.GetKingPos\<close> is not among the sources; the
  package-main generation reads the first square of the king list
  (\<open>f.Pieces[f.ToMove][King][0]\<close>), which panics when the list is empty.
\<close>

definition GetKingPos :: "PiecePositions \<Rightarrow> Color \<Rightarrow> Position option" where
  "GetKingPos ps c = (case ps c King of [] \<Rightarrow> None | k # _ \<Rightarrow> Some k)"

section \<open>Move generation (package chess\_engine)\<close>

text \<open>
  The inner loop over one ray, shared by every sliding piece: a square satisfying the
  condition is a hit and ends the ray, an empty square is passed, an occupied one ends
  the ray.
\<close>

fun walkLine :: "(Position \<Rightarrow> bool) \<Rightarrow> Piece list \<Rightarrow> Position \<Rightarrow> Position list \<Rightarrow> Move list" where
  "walkLine cond board fromPos [] = []"
| "walkLine cond board fromPos (toPos # rest) =
     (if cond toPos then [NewMove fromPos toPos]
      else if board ! toPos = NoPiece then walkLine cond board fromPos rest
      else [])"

definition pawnHits :: "(Position \<Rightarrow> bool) \<Rightarrow> Color \<Rightarrow> Position \<Rightarrow> Move list" where
  "pawnHits cond color pawnPos =
     concat (map (\<lambda>p.
        if cond p then
          (let move = NewMove pawnPos p
           in case ToPromotions move of None \<Rightarrow> [move] | Some promotions \<Rightarrow> promotions)
        else [])
       (PawnAttacks color pawnPos))"

definition GetAttacksOnCondition :: "FEN \<Rightarrow> (Position \<Rightarrow> bool) \<Rightarrow> Color \<Rightarrow> Move list" where
  "GetAttacksOnCondition f cond color =
     concat (map (pawnHits cond color) (Positions (Pieces f) color Pawn))
     @ concat (map (\<lambda>piece.
          concat (map (\<lambda>fromPos. map (NewMove fromPos) (filter cond (PieceMoves piece fromPos)))
            (Positions (Pieces f) color piece)))
        [Knight])
     @ concat (map (\<lambda>piece.
          concat (map (\<lambda>fromPos.
              concat (map (walkLine cond (Board f) fromPos) (MoveVectors piece fromPos)))
            (Positions (Pieces f) color piece)))
        [Bishop, Rook, Queen])"

definition GetAttacks :: "FEN \<Rightarrow> Color \<Rightarrow> Move list" where
  "GetAttacks f color =
     GetAttacksOnCondition f
       (\<lambda>p. Board f ! p \<noteq> NoPiece \<and> Piece_Color (Board f ! p) = Opposite color) color"

definition AttacksSquare :: "FEN \<Rightarrow> Color \<Rightarrow> Position \<Rightarrow> bool" where
  "AttacksSquare f color sq = (length (GetAttacksOnCondition f (\<lambda>p. p = sq) color) > 0)"

definition GetIncomingAttacks :: "FEN \<Rightarrow> Move list" where
  "GetIncomingAttacks f = GetAttacks f (Opposite (ToMove f))"

text \<open>Go's integer division truncates towards zero.\<close>

definition quot :: "int \<Rightarrow> int \<Rightarrow> int" where
  "quot a b = sgn a * sgn b * (\<bar>a\<bar> div \<bar>b\<bar>)"

text \<open>
  The walk from the king's square towards the checker. The position is kept as an
  \<open>int\<close>: a value below zero stands for the wrapped unsigned value of the source, which
  equals no square and which the next \<open>int(pos)\<close> reads back as the same negative number.
  The keys of the \<open>blocks\<close> map are collected in a list. When the step count passes 7
  the source prints the piece at \<open>f.Board[pos]\<close> before its panic, so a position that
  has left the board ends in the index panic instead.
\<close>

function blockWalk ::
  "Piece list \<Rightarrow> int \<Rightarrow> int \<Rightarrow> int \<Rightarrow> nat \<Rightarrow> int list \<Rightarrow> error + int list" where
  "blockWalk board checkFrom step pos i blocks =
     (if pos \<noteq> checkFrom then
        (let pos' = pos + step; blocks' = blocks @ [pos']; i' = i + 1
         in if i' > 7 then
              (if pos' < 0 \<or> int (length board) \<le> pos' then Inl IndexOutOfRange
               else Inl StepBoundExceeded)
            else blockWalk board checkFrom step pos' i' blocks')
      else Inr blocks)"
  by pat_completeness auto
termination
  by (relation "measure (\<lambda>(board, checkFrom, step, pos, i, blocks). 8 - i)") auto

declare blockWalk.simps [simp del]

definition checkStep :: "Move \<Rightarrow> error + int" where
  "checkStep check =
     (let diffFile = int (GetFile (From check)) - int (GetFile (To check));
          diffRank = int (GetRank (From check)) - int (GetRank (To check));
          maxDiff0 = (if diffFile < 0 then diffFile * -1 else diffFile);
          maxDiff = (if diffRank > maxDiff0 then diffRank
                     else if diffRank * -1 > maxDiff0 then diffRank * -1
                     else maxDiff0)
      in if maxDiff = 0 then Inl DivideByZero
         else Inr (quot diffFile maxDiff + quot diffRank maxDiff * 8))"

definition blockSquares :: "Piece list \<Rightarrow> Move \<Rightarrow> error + int list" where
  "blockSquares board check =
     (case checkStep check of
        Inl e \<Rightarrow> Inl e
      | Inr step \<Rightarrow> blockWalk board (int (From check)) step (int (To check)) 0 [])"

definition kingEscapes :: "FEN \<Rightarrow> Move list" where
  "kingEscapes f =
     concat (map (\<lambda>kingPos.
        map (NewMove kingPos)
          (filter (\<lambda>p. (Board f ! p = NoPiece \<or> Piece_Color (Board f ! p) = Opposite (ToMove f))
                        \<and> \<not> AttacksSquare f (Opposite (ToMove f)) p)
             (GetKingMoves kingPos)))
       (Positions (Pieces f) (ToMove f) King))"

definition validMovesInCheck :: "FEN \<Rightarrow> Move list \<Rightarrow> error + Move list" where
  "validMovesInCheck f checks =
     (let result = kingEscapes f in
      if length checks = 1 then
        (let check = hd checks; attackingPiece = Board f ! From check in
         if ToNormalizedPiece attackingPiece = Knight then Inr result
         else case blockSquares (Board f) check of
                Inl e \<Rightarrow> Inl e
              | Inr blocks \<Rightarrow>
                  Inr (result @ GetAttacksOnCondition f (\<lambda>p. int p \<in> set blocks) (ToMove f)))
      else Inr result)"

text \<open>
  The checks among the incoming attacks. The king's square is looked up once per
  attack, so a position without a king panics only when there is an attack to test.
\<close>

definition detectChecks :: "FEN \<Rightarrow> error + Move list" where
  "detectChecks f =
     (let incoming = GetIncomingAttacks f in
      if incoming = [] then Inr []
      else case GetKingPos (Pieces f) (ToMove f) of
             None \<Rightarrow> Inl IndexOutOfRange
           | Some kingPos \<Rightarrow> Inr (filter (\<lambda>attack. To attack = kingPos) incoming))"

definition IsMate :: "FEN \<Rightarrow> error + bool" where
  "IsMate f =
     (case detectChecks f of
        Inl e \<Rightarrow> Inl e
      | Inr checks \<Rightarrow>
          if length checks > 0 then
            (case validMovesInCheck f checks of
               Inl e \<Rightarrow> Inl e
             | Inr moves \<Rightarrow> Inr (length moves = 0))
          else Inr False)"

definition pawnAdvances :: "FEN \<Rightarrow> Position \<Rightarrow> Move list" where
  "pawnAdvances f pawnPos =
     concat (map (\<lambda>targetPos.
        if Board f ! targetPos = NoPiece then
          (let move = NewMove pawnPos targetPos
           in case ToPromotions move of None \<Rightarrow> [move] | Some promotions \<Rightarrow> promotions)
        else [])
       (PieceMoves (Board f ! pawnPos) pawnPos))"

definition quietMoves :: "FEN \<Rightarrow> Position \<Rightarrow> Move list" where
  "quietMoves f kingPos =
     concat (map (pawnAdvances f) (Positions (Pieces f) (ToMove f) Pawn))
     @ concat (map (\<lambda>piece.
          concat (map (\<lambda>fromPos.
              map (NewMove fromPos) (filter (\<lambda>toPos. Board f ! toPos = NoPiece) (PieceMoves piece fromPos)))
            (Positions (Pieces f) (ToMove f) piece)))
        [Knight])
     @ concat (map (\<lambda>piece.
          concat (map (\<lambda>fromPos.
              concat (map (\<lambda>line.
                  map (NewMove fromPos) (takeWhile (\<lambda>toPos. Board f ! toPos = NoPiece) line))
                (MoveVectors piece fromPos)))
            (Positions (Pieces f) (ToMove f) piece)))
        [Bishop, Rook, Queen])
     @ map (NewMove kingPos) (filter (\<lambda>p. Board f ! p = NoPiece) (GetKingMoves kingPos))"

definition ValidMoves :: "FEN \<Rightarrow> error + Move list" where
  "ValidMoves f =
     (case detectChecks f of
        Inl e \<Rightarrow> Inl e
      | Inr checks \<Rightarrow>
          if length checks > 0 then validMovesInCheck f checks
          else (case GetKingPos (Pieces f) (ToMove f) of
                  None \<Rightarrow> Inl IndexOutOfRange
                | Some kingPos \<Rightarrow> Inr (GetAttacks f (ToMove f) @ quietMoves f kingPos)))"

section \<open>Move generation (package main, the earlier generation)\<close>

text \<open>
  The earlier generation computes the pawn targets by arithmetic on the unsigned square
  (\<open>pawnPos - 7\<close> wraps below zero) and reads the board at squares it computed itself.
  A read outside the slots of the board is the index panic of the source, so every
  read of the board is checked and the functions return the panic as an error.
\<close>

fun sequenceE :: "(error + 'x) list \<Rightarrow> error + 'x list" where
  "sequenceE [] = Inr []"
| "sequenceE (r # rs) =
     (case r of
        Inl e \<Rightarrow> Inl e
      | Inr x \<Rightarrow> (case sequenceE rs of Inl e \<Rightarrow> Inl e | Inr xs \<Rightarrow> Inr (x # xs)))"

definition concatE :: "(error + 'x list) list \<Rightarrow> error + 'x list" where
  "concatE rs = (case sequenceE rs of Inl e \<Rightarrow> Inl e | Inr xss \<Rightarrow> Inr (concat xss))"

definition appendE :: "error + 'x list \<Rightarrow> error + 'x list \<Rightarrow> error + 'x list" where
  "appendE r1 r2 =
     (case r1 of
        Inl e \<Rightarrow> Inl e
      | Inr xs \<Rightarrow> (case r2 of Inl e \<Rightarrow> Inl e | Inr ys \<Rightarrow> Inr (xs @ ys)))"

definition boardAt :: "FEN \<Rightarrow> Position \<Rightarrow> error + Piece" where
  "boardAt f p = (if p < length (Board f) then Inr (Board f ! p) else Inl IndexOutOfRange)"

definition wrapSub :: "nat \<Rightarrow> nat \<Rightarrow> nat" where
  "wrapSub p d = (if p < d then p + (18446744073709551616 - d) else p - d)"

definition pawnTargets_main :: "Color \<Rightarrow> Position \<Rightarrow> Position list" where
  "pawnTargets_main color pawnPos =
     (let file = GetFile pawnPos in
      if color = White then
        (if file > FileA then [pawnPos + 7] else []) @ (if file < FileH then [pawnPos + 9] else [])
      else
        (if file < FileH then [wrapSub pawnPos 7] else [])
        @ (if file > FileA then [wrapSub pawnPos 9] else []))"

definition pawnHits_main ::
  "(Position \<Rightarrow> error + bool) \<Rightarrow> Color \<Rightarrow> Position \<Rightarrow> error + Move list" where
  "pawnHits_main cond color pawnPos =
     concatE (map (\<lambda>p.
        case cond p of
          Inl e \<Rightarrow> Inl e
        | Inr hit \<Rightarrow>
            Inr (if hit then
                   (if color = White \<and> GetRank pawnPos = Rank7 then
                      map (\<lambda>piece. (NewMove pawnPos p)\<lparr>Promote := piece\<rparr>)
                        [WhiteKnight, WhiteQueen, WhiteRook, WhiteBishop]
                    else if color = Black \<and> GetRank pawnPos = Rank2 then
                      map (\<lambda>piece. (NewMove pawnPos p)\<lparr>Promote := piece\<rparr>)
                        [BlackKnight, BlackQueen, BlackRook, BlackBishop]
                    else [NewMove pawnPos p])
                 else []))
       (pawnTargets_main color pawnPos))"

definition jumpHits_main ::
  "(Position \<Rightarrow> error + bool) \<Rightarrow> Position \<Rightarrow> Position list \<Rightarrow> error + Move list" where
  "jumpHits_main cond fromPos targets =
     concatE (map (\<lambda>p.
        case cond p of
          Inl e \<Rightarrow> Inl e
        | Inr hit \<Rightarrow> Inr (if hit then [NewMove fromPos p] else []))
       targets)"

fun walkLine_main ::
  "(Position \<Rightarrow> error + bool) \<Rightarrow> FEN \<Rightarrow> Position \<Rightarrow> Position list \<Rightarrow> error + Move list" where
  "walkLine_main cond f fromPos [] = Inr []"
| "walkLine_main cond f fromPos (p # rest) =
     (case cond p of
        Inl e \<Rightarrow> Inl e
      | Inr hit \<Rightarrow>
          if hit then Inr [NewMove fromPos p]
          else (case boardAt f p of
                  Inl e \<Rightarrow> Inl e
                | Inr piece \<Rightarrow> if piece = NoPiece then walkLine_main cond f fromPos rest else Inr []))"

definition GetAttacksOnCondition_main ::
  "FEN \<Rightarrow> (Position \<Rightarrow> error + bool) \<Rightarrow> Color \<Rightarrow> error + Move list" where
  "GetAttacksOnCondition_main f cond color =
     concatE
       [concatE (map (pawnHits_main cond color) (Pieces f color Pawn)),
        concatE (map (\<lambda>knightPos. jumpHits_main cond knightPos (GetKnightMoves knightPos))
                  (Pieces f color Knight)),
        concatE (map (\<lambda>bishopPos.
                    concatE (map (walkLine_main cond f bishopPos) (GetDiagonals bishopPos)))
                  (Pieces f color Bishop)),
        concatE (map (\<lambda>rookPos.
                    concatE (map (walkLine_main cond f rookPos) (GetLines rookPos)))
                  (Pieces f color Rook)),
        concatE (map (\<lambda>queenPos.
                    appendE
                      (concatE (map (walkLine_main cond f queenPos) (GetDiagonals queenPos)))
                      (concatE (map (walkLine_main cond f queenPos) (GetLines queenPos))))
                  (Pieces f color Queen))]"

definition GetAttacks_main :: "FEN \<Rightarrow> Color \<Rightarrow> error + Move list" where
  "GetAttacks_main f color =
     GetAttacksOnCondition_main f
       (\<lambda>p. case boardAt f p of
               Inl e \<Rightarrow> Inl e
             | Inr piece \<Rightarrow> Inr (piece \<noteq> NoPiece \<and> Piece_Color piece = Opposite color))
       color"

definition AttacksSquare_main :: "FEN \<Rightarrow> Color \<Rightarrow> Position \<Rightarrow> error + bool" where
  "AttacksSquare_main f color sq =
     (case GetAttacksOnCondition_main f (\<lambda>p. Inr (p = sq)) color of
        Inl e \<Rightarrow> Inl e
      | Inr attacks \<Rightarrow> Inr (length attacks > 0))"

definition GetIncomingAttacks_main :: "FEN \<Rightarrow> error + Move list" where
  "GetIncomingAttacks_main f = GetAttacks_main f (Opposite (ToMove f))"

definition validMovesInCheck_main :: "FEN \<Rightarrow> Move list \<Rightarrow> error + Move list" where
  "validMovesInCheck_main f checks =
     (case concatE (map (\<lambda>kingPos.
                      concatE (map (\<lambda>p.
                          case AttacksSquare_main f (Opposite (ToMove f)) p of
                            Inl e \<Rightarrow> Inl e
                          | Inr attacked \<Rightarrow> Inr (if \<not> attacked then [NewMove kingPos p] else []))
                        (GetKingMoves kingPos)))
                 (Pieces f (ToMove f) King)) of
        Inl e \<Rightarrow> Inl e
      | Inr result \<Rightarrow>
          if length checks = 1 then
            (let check = hd checks in
             case boardAt f (From check) of
               Inl e \<Rightarrow> Inl e
             | Inr attackingPiece \<Rightarrow>
                 if ToNormalizedPiece attackingPiece = Knight then Inr result
                 else case blockSquares (Board f) check of
                        Inl e \<Rightarrow> Inl e
                      | Inr blocks \<Rightarrow>
                          appendE (Inr result)
                            (GetAttacksOnCondition_main f (\<lambda>p. Inr (int p \<in> set blocks))
                               (ToMove f)))
          else Inr result)"

text \<open>
  The quiet pawn advances. The target is \<open>Position(int(pawnPos) + rankDiff*8)\<close>: a
  sum below zero wraps to a square far outside the board, and the read of the board
  there panics like any other read past the last slot.
\<close>

definition pawnAdvances_main :: "FEN \<Rightarrow> Position \<Rightarrow> error + Move list" where
  "pawnAdvances_main f pawnPos =
     (let skips =
            (if ToMove f = White then
               [1] @ (if GetRank pawnPos = Rank2 then [2] else [])
             else
               [-1] @ (if GetRank pawnPos = Rank6 then [-2] else []))
      in concatE (map (\<lambda>rankDiff.
           let target = int pawnPos + rankDiff * 8 in
           if target < 0 then Inl IndexOutOfRange
           else let targetPos = nat target in
             case boardAt f targetPos of
               Inl e \<Rightarrow> Inl e
             | Inr piece \<Rightarrow>
                 Inr (if piece = NoPiece then
                        (if ToMove f = White \<and> GetRank targetPos = Rank8 then
                           map (\<lambda>p. (NewMove pawnPos targetPos)\<lparr>Promote := p\<rparr>)
                             [WhiteKnight, WhiteQueen, WhiteRook, WhiteBishop]
                         else if ToMove f = Black \<and> GetRank targetPos = Rank1 then
                           map (\<lambda>p. (NewMove pawnPos targetPos)\<lparr>Promote := p\<rparr>)
                             [BlackKnight, BlackQueen, BlackRook, BlackBishop]
                         else [NewMove pawnPos targetPos])
                      else []))
          skips))"

text \<open>
  The quiet moves in the earlier generation: a target is kept when the board is empty
  there; the loop over a ray of a sliding piece ends after its first square, whether
  that square is empty or not.
\<close>

definition quietTargets_main :: "FEN \<Rightarrow> Position \<Rightarrow> Position list \<Rightarrow> error + Move list" where
  "quietTargets_main f fromPos targets =
     concatE (map (\<lambda>p.
        case boardAt f p of
          Inl e \<Rightarrow> Inl e
        | Inr piece \<Rightarrow> Inr (if piece = NoPiece then [NewMove fromPos p] else []))
       targets)"

definition firstStep_main :: "FEN \<Rightarrow> Position \<Rightarrow> Position list \<Rightarrow> error + Move list" where
  "firstStep_main f fromPos line =
     (case line of
        [] \<Rightarrow> Inr []
      | p # rest \<Rightarrow>
          (case boardAt f p of
             Inl e \<Rightarrow> Inl e
           | Inr piece \<Rightarrow> Inr (if piece = NoPiece then [NewMove fromPos p] else [])))"

definition ValidMoves_main :: "FEN \<Rightarrow> error + Move list" where
  "ValidMoves_main f =
     (case GetIncomingAttacks_main f of
        Inl e \<Rightarrow> Inl e
      | Inr incoming \<Rightarrow>
     (case (if incoming = [] then Inr []
            else case Pieces f (ToMove f) King of
                   [] \<Rightarrow> Inl IndexOutOfRange
                 | kingPos # others \<Rightarrow> Inr (filter (\<lambda>attack. To attack = kingPos) incoming)) of
        Inl e \<Rightarrow> Inl e
      | Inr checks \<Rightarrow>
          if length checks > 0 then validMovesInCheck_main f checks
          else concatE
            [GetAttacks_main f (ToMove f),
             concatE (map (pawnAdvances_main f) (Pieces f (ToMove f) Pawn)),
             concatE (map (\<lambda>knightPos. quietTargets_main f knightPos (GetKnightMoves knightPos))
                       (Pieces f (ToMove f) Knight)),
             concatE (map (\<lambda>bishopPos.
                         concatE (map (firstStep_main f bishopPos) (GetDiagonals bishopPos)))
                       (Pieces f (ToMove f) Bishop)),
             concatE (map (\<lambda>rookPos.
                         concatE (map (firstStep_main f rookPos) (GetLines rookPos)))
                       (Pieces f (ToMove f) Rook)),
             concatE (map (\<lambda>queenPos.
                         appendE
                           (concatE (map (firstStep_main f queenPos) (GetDiagonals queenPos)))
                           (concatE (map (firstStep_main f queenPos) (GetLines queenPos))))
                       (Pieces f (ToMove f) Queen)),
             concatE (map (\<lambda>kingPos. quietTargets_main f kingPos (GetKingMoves kingPos))
                       (Pieces f (ToMove f) King))]))"

section \<open>Position text: ParseFEN and FENString (package chess\_engine)\<close>

text \<open>
  \<open>ParsePosition\<close>, \<open>PositionFromFileRank\<close> and \<open>Position.String\<close>. Files and
  ranks are bytes: the subtractions wrap modulo 256. Both coordinates are at most 7 where
  the source shifts, so the shifted bit stays inside the 64 bits of a \<open>Position\<close>.
\<close>

definition PositionFromFileRank :: "nat \<Rightarrow> nat \<Rightarrow> Position" where
  "PositionFromFileRank fl rk =
     (let f' = (fl + 256 - FileA) mod 256; r' = (rk + 256 - Rank1) mod 256
      in if f' > 7 \<or> r' > 7 then NoPosition
         else 2 ^ ((r' * 8) mod 256 + f'))"

definition parsePosition :: "string \<Rightarrow> Position option" where
  "parsePosition pstr =
     (if length pstr \<noteq> 2 then None
      else let fl = (of_char (pstr ! 0) :: nat); rk = (of_char (pstr ! 1) :: nat) in
        if \<not> ((97 \<le> fl \<and> fl \<le> 104) \<or> (65 \<le> fl \<and> fl \<le> 72)) then None
        else let fl' = (if 65 \<le> fl \<and> fl \<le> 72 then (fl + 32) mod 256 else fl) in
        if \<not> (49 \<le> rk \<and> rk \<le> 56) then None
        else Some (PositionFromFileRank fl' rk))"

definition ParsePosition :: "string \<Rightarrow> error + Position" where
  "ParsePosition pstr = (case parsePosition pstr of None \<Rightarrow> Inl ParseError | Some p \<Rightarrow> Inr p)"

definition Position_String :: "Position \<Rightarrow> string" where
  "Position_String p =
     (if NoPosition = p then ''-'' else [char_of (GetFile p), char_of (GetRank p)])"

fun Color_String :: "Color \<Rightarrow> string" where
  "Color_String c = (if c = White then ''w'' else if c = Black then ''b'' else '' '')"

fun CastleStatus_String :: "CastleStatus \<Rightarrow> Color \<Rightarrow> string" where
  "CastleStatus_String cs c =
     (if cs = Both \<and> c = Black then ''kq''
      else if cs = Both \<and> c = White then ''KQ''
      else if cs = Kingside \<and> c = Black then ''k''
      else if cs = Kingside \<and> c = White then ''K''
      else if cs = Queenside \<and> c = Black then ''q''
      else if cs = Queenside \<and> c = White then ''Q''
      else if cs = NoneCS then ''-''
      else '''')"

text \<open>
  The library functions the codec calls. \<open>strconv.Itoa\<close> and the \<open>%d\<close> of
  \<open>fmt.Sprintf\<close> write a sign and the decimal digits.
\<close>

definition digitChar :: "nat \<Rightarrow> char" where
  "digitChar d = ''0123456789'' ! d"

fun natDigits :: "nat \<Rightarrow> string" where
  "natDigits n = (if n < 10 then [digitChar n] else natDigits (n div 10) @ [digitChar (n mod 10)])"

definition Itoa :: "int \<Rightarrow> string" where
  "Itoa i = (if i < 0 then CHR ''-'' # natDigits (nat (- i)) else natDigits (nat i))"

text \<open>
  \<open>fmt.Sscanf\<close> with the format \<open>"%s %s %s %s %d %d"\<close>. The input is read rune by
  rune; \<open>spaceWidth\<close> is the number of bytes of the white-space rune at the head of the
  input (tab, line feed, vertical tab, form feed, carriage return, blank, U+0085, U+00A0,
  U+1680, U+2000 to U+200A, U+2028, U+2029, U+202F, U+205F, U+3000 in UTF-8), or 0.
  Before every verb white space is skipped, and a line feed met there is an error. A
  \<open>%s\<close> takes the bytes up to the next white space and must not be empty. A \<open>%d\<close>
  takes an optional sign and the longest run of digits and underscores, which must not
  be empty; \<open>strconv.ParseInt\<close> then refuses an underscore and a value outside 64 bits.
  The blank of the format between the two numbers must meet white space or the end of
  the input. What follows the last number is ignored.
\<close>

definition isAsciiSpace :: "char \<Rightarrow> bool" where
  "isAsciiSpace c = (c = CHR 0x09 \<or> c = CHR 0x0A \<or> c = CHR 0x0B \<or> c = CHR 0x0C \<or>
                     c = CHR 0x0D \<or> c = CHR '' '')"

definition spaceWidth :: "string \<Rightarrow> nat" where
  "spaceWidth s =
     (case s of
        [] \<Rightarrow> 0
      | c # r1 \<Rightarrow>
          if isAsciiSpace c then 1
          else (case r1 of
                  [] \<Rightarrow> 0
                | d # r2 \<Rightarrow>
                    if c = CHR 0xC2 then (if d = CHR 0x85 \<or> d = CHR 0xA0 then 2 else 0)
                    else (case r2 of
                            [] \<Rightarrow> 0
                          | e # r3 \<Rightarrow>
                              if c = CHR 0xE1 \<and> d = CHR 0x9A \<and> e = CHR 0x80 then 3
                              else if c = CHR 0xE2 \<and> d = CHR 0x80 \<and>
                                      ((128::nat) \<le> of_char e \<and> of_char e \<le> (138::nat)
                                       \<or> e = CHR 0xA8 \<or> e = CHR 0xA9 \<or> e = CHR 0xAF) then 3
                              else if c = CHR 0xE2 \<and> d = CHR 0x81 \<and> e = CHR 0x9F then 3
                              else if c = CHR 0xE3 \<and> d = CHR 0x80 \<and> e = CHR 0x80 then 3
                              else 0)))"

function skipSpace :: "string \<Rightarrow> string option" where
  "skipSpace s =
     (if spaceWidth s = 0 then Some s
      else if hd s = CHR 0x0A then None
      else skipSpace (drop (spaceWidth s) s))"
  by pat_completeness auto
termination
  by (relation "measure length") (auto simp: spaceWidth_def split: list.splits if_splits)

declare skipSpace.simps [simp del]

fun scanToken :: "string \<Rightarrow> string \<times> string" where
  "scanToken [] = ([], [])"
| "scanToken (c # cs) =
     (if spaceWidth (c # cs) > 0 then ([], c # cs)
      else (case scanToken cs of (tok, rest) \<Rightarrow> (c # tok, rest)))"

definition scanString :: "string \<Rightarrow> (string \<times> string) option" where
  "scanString s =
     (case skipSpace s of
        None \<Rightarrow> None
      | Some s1 \<Rightarrow> (case scanToken s1 of (tok, rest) \<Rightarrow> if tok = [] then None else Some (tok, rest)))"

definition digitVal :: "char \<Rightarrow> nat option" where
  "digitVal c =
     (if (48::nat) \<le> of_char c \<and> of_char c \<le> (57::nat) then Some (of_char c - 48) else None)"

fun decimalValue :: "string \<Rightarrow> nat \<Rightarrow> nat option" where
  "decimalValue [] acc = Some acc"
| "decimalValue (c # cs) acc =
     (case digitVal c of None \<Rightarrow> None | Some d \<Rightarrow> decimalValue cs (acc * 10 + d))"

definition scanInt :: "string \<Rightarrow> (64 word \<times> string) option" where
  "scanInt s =
     (case skipSpace s of
        None \<Rightarrow> None
      | Some s1 \<Rightarrow>
          (let neg = (s1 \<noteq> [] \<and> hd s1 = CHR ''-'');
               s2 = (if s1 \<noteq> [] \<and> (hd s1 = CHR ''+'' \<or> hd s1 = CHR ''-'') then tl s1 else s1);
               tok = takeWhile (\<lambda>c. digitVal c \<noteq> None \<or> c = CHR ''_'') s2;
               rest = dropWhile (\<lambda>c. digitVal c \<noteq> None \<or> c = CHR ''_'') s2
           in if tok = [] then None
              else case decimalValue tok 0 of
                     None \<Rightarrow> None
                   | Some n \<Rightarrow>
                       (let i = (if neg then - int n else int n)
                        in if - (2 ^ 63) \<le> i \<and> i < 2 ^ 63 then Some (word_of_int i, rest)
                           else None)))"

definition Sscanf6 ::
  "string \<Rightarrow> (string \<times> string \<times> string \<times> string \<times> 64 word \<times> 64 word) option" where
  "Sscanf6 s =
     (case scanString s of None \<Rightarrow> None | Some (a, r1) \<Rightarrow>
      case scanString r1 of None \<Rightarrow> None | Some (b, r2) \<Rightarrow>
      case scanString r2 of None \<Rightarrow> None | Some (c, r3) \<Rightarrow>
      case scanString r3 of None \<Rightarrow> None | Some (d, r4) \<Rightarrow>
      case scanInt r4 of None \<Rightarrow> None | Some (h, r5) \<Rightarrow>
      if r5 \<noteq> [] \<and> (spaceWidth r5 = 0 \<or> hd r5 = CHR 0x0A) then None
      else case scanInt r5 of None \<Rightarrow> None | Some (fm, r6) \<Rightarrow> Some (a, b, c, d, h, fm))"

definition Trim :: "string \<Rightarrow> char \<Rightarrow> string" where
  "Trim s c = rev (dropWhile (\<lambda>x. x = c) (rev (dropWhile (\<lambda>x. x = c) s)))"

text \<open>
  The placement loop of \<open>ParseFEN\<close>. The coordinates are \<open>int\<close>s, and a piece written
  outside the 64 slots is the index panic of the source.
\<close>

fun parseBoard ::
  "string \<Rightarrow> int \<Rightarrow> int \<Rightarrow> Piece list \<Rightarrow> PiecePositions \<Rightarrow> error + (Piece list \<times> PiecePositions)" where
  "parseBoard [] x y board pieces = Inr (board, pieces)"
| "parseBoard (c # cs) x y board pieces =
     (if c = CHR ''/'' then parseBoard cs 0 (y - 1) board pieces
      else if (49::nat) \<le> of_char c \<and> of_char c \<le> (56::nat) then
        parseBoard cs (x + (int (of_char c) - 48)) y board pieces
      else let pos = y * 8 + x in
        if pos < 0 \<or> 64 \<le> pos then Inl IndexOutOfRange
        else parseBoard cs (x + 1) y (board[nat pos := c]) (AddPosition pieces c (nat pos)))"

definition parseCastle :: "string \<Rightarrow> char \<Rightarrow> char \<Rightarrow> CastleStatus" where
  "parseCastle castleStr k q =
     (let s1 = (if k \<in> set castleStr then Kingside else NoneCS)
      in if q \<in> set castleStr then (if s1 = Kingside then Both else Queenside) else s1)"

definition ParseFEN :: "string \<Rightarrow> error + FEN" where
  "ParseFEN fenstr =
     (case Sscanf6 fenstr of
        None \<Rightarrow> Inl ParseError
      | Some (forStr, colorStr, castleStr, enPassant, halfmove, fullmove) \<Rightarrow>
          if colorStr \<noteq> ''w'' \<and> colorStr \<noteq> ''b'' then Inl ParseError
          else
            (case (if enPassant = ''-'' then Inr NoPosition else ParsePosition enPassant) of
               Inl e \<Rightarrow> Inl e
             | Inr ep \<Rightarrow>
                 (case parseBoard forStr 0 7 (replicate 64 NoPiece) NewPiecePositions of
                    Inl e \<Rightarrow> Inl e
                  | Inr (board, pieces) \<Rightarrow>
                      Inr \<lparr>Board = board, Pieces = pieces,
                           ToMove = (if colorStr = ''w'' then White else Black),
                           WhiteCastleStatus = parseCastle castleStr (CHR ''K'') (CHR ''Q''),
                           BlackCastleStatus = parseCastle castleStr (CHR ''k'') (CHR ''q''),
                           EnPassantVulnerable = ep,
                           HalfmoveClock = halfmove, Fullmove = fullmove,
                           Line = []\<rparr>)))"

text \<open>
  \<open>FENString\<close>. The inner loop over the files of one rank carries the count of empty
  squares (\<open>nEmpty\<close>); the board is read at \<open>y * 8 + x\<close>, inside the 64 slots every position has.
\<close>

fun fenCells :: "Piece list \<Rightarrow> nat \<Rightarrow> string" where
  "fenCells [] nEmpty = (if nEmpty \<noteq> 0 then Itoa (int nEmpty) else [])"
| "fenCells (p # ps) nEmpty =
     (if p \<noteq> NoPiece then
        (if nEmpty \<noteq> 0 then Itoa (int nEmpty) else []) @ [p] @ fenCells ps 0
      else fenCells ps (nEmpty + 1))"

definition fenRow :: "Piece list \<Rightarrow> nat \<Rightarrow> string" where
  "fenRow board y =
     fenCells (map (\<lambda>x. board ! (y * 8 + x)) [0, 1, 2, 3, 4, 5, 6, 7]) 0
     @ (if y \<noteq> 0 then ''/'' else [])"

definition fenPlacement :: "Piece list \<Rightarrow> string" where
  "fenPlacement board = concat (map (fenRow board) [7, 6, 5, 4, 3, 2, 1, 0])"

definition fenCastle :: "CastleStatus \<Rightarrow> CastleStatus \<Rightarrow> string" where
  "fenCastle w b =
     (let s0 = CastleStatus_String w White @ CastleStatus_String b Black;
          s1 = (if s0 = ''--'' then ''-'' else s0)
      in if s1 \<noteq> ''-'' \<and> CHR ''-'' \<in> set s1 then Trim s1 (CHR ''-'') else s1)"

definition FENString :: "FEN \<Rightarrow> string" where
  "FENString f =
     fenPlacement (Board f) @ '' '' @ Color_String (ToMove f) @ '' ''
     @ fenCastle (WhiteCastleStatus f) (BlackCastleStatus f) @ '' ''
     @ (if EnPassantVulnerable f \<noteq> 0 then Position_String (EnPassantVulnerable f) else ''-'')
     @ '' '' @ Itoa (sint (HalfmoveClock f)) @ '' '' @ Itoa (sint (Fullmove f))"

section \<open>The search loop (DFSEngine.start)\<close>

text \<open>
  The engine's scores are \<open>float64\<close> in the source. The model keeps them in a type
  \<open>'a\<close> about which nothing is assumed: the addition and the multiplication of the
  source are the fields \<open>fadd\<close> and \<open>fmul\<close> of the engine, and \<open>flit\<close> is the
  conversion of a numeric literal of the program text (\<open>0.0\<close>, \<open>58008\<close>, \<open>-1\<close>).
  No law of arithmetic is used, so rounding, infinities and NaN are whatever these
  operations make of them.

  Modelled from the spec: the evaluation tree, \<open>IsDraw\<close>, \<open>InCheck\<close> and the text of
  a move and of a principal variation are not among the sources. They are fields of the
  engine record: the tree is a value of some type \<open>'t\<close> with its \<open>UpdateBestLine\<close> and
  \<open>Insert\<close>; \<open>BestMoveString\<close> is \<open>b.EvalTree.BestLine.Move.String()\<close> and
  \<open>PVLine\<close> is the ``info depth \dots score cp \dots pv \dots'' line read from the
  tree's best line.
\<close>

record ('t, 'a) DFSEngine =
  Evaluators :: "(FEN \<Rightarrow> 'a) list"
  SelDepth :: "64 word"
  fadd :: "'a \<Rightarrow> 'a \<Rightarrow> 'a"
  fmul :: "'a \<Rightarrow> 'a \<Rightarrow> 'a"
  flit :: "int \<Rightarrow> 'a"
  IsDraw :: "FEN \<Rightarrow> bool"
  InCheck :: "FEN \<Rightarrow> bool"
  UpdateBestLine :: "'t \<Rightarrow> 't"
  Insert :: "'t \<Rightarrow> Move list \<Rightarrow> 'a \<Rightarrow> 't"
  BestMoveString :: "'t \<Rightarrow> string"
  PVLine :: "'t \<Rightarrow> string"

definition heuristicScorePosition :: "('t, 'a) DFSEngine \<Rightarrow> FEN \<Rightarrow> 'a" where
  "heuristicScorePosition b f =
     (let score = foldl (\<lambda>score eval. fadd b score (eval f)) (flit b 0) (Evaluators b)
      in if ToMove f = Black then fmul b score (flit b (- 1)) else score)"

text \<open>The scoring of a dequeued position in the loop; \<open>IsMate\<close> may panic.\<close>

definition scorePosition :: "('t, 'a) DFSEngine \<Rightarrow> FEN \<Rightarrow> error + 'a" where
  "scorePosition b game =
     (if IsDraw b game then Inr (flit b 0)
      else case IsMate game of
             Inl e \<Rightarrow> Inl e
           | Inr mate \<Rightarrow>
               if mate then Inr (flit b 58008) else Inr (heuristicScorePosition b game))"

definition NextFENs :: "FEN \<Rightarrow> error + FEN list" where
  "NextFENs f =
     (case ValidMoves f of
        Inl e \<Rightarrow> Inl e
      | Inr moves \<Rightarrow> sequenceE (map (ApplyMove f) moves))"

definition ShouldCheckPosition :: "('t, 'a) DFSEngine \<Rightarrow> FEN \<Rightarrow> error + bool" where
  "ShouldCheckPosition b position =
     (case ValidMoves position of
        Inl e \<Rightarrow> Inl e
      | Inr valid \<Rightarrow> Inr (InCheck b position \<or> length valid \<le> 1))"

text \<open>
  The variables of \<open>start\<close> that live across iterations. The queue's front is the head
  of the list; the output channel (\<open>outputs\<close>) is the list of the lines sent so far.
\<close>

record 't SearchState =
  seen :: "string list"
  evalTree :: 't
  depth :: "64 word"
  nodes :: "64 word"
  totalNodes :: "64 word"
  queue :: "FEN list"
  outputs :: "string list"

datatype event = Cancelled | TimerFired | Idle

definition infoLine :: "64 word \<Rightarrow> 64 word \<Rightarrow> 64 word \<Rightarrow> string" where
  "infoLine n tot d =
     ''info ns '' @ Itoa (sint n) @ '' nodes '' @ Itoa (sint tot) @ '' depth '' @ Itoa (sint d)"

definition bestmoveLine :: "('t, 'a) DFSEngine \<Rightarrow> 't \<Rightarrow> string" where
  "bestmoveLine b tree = ''bestmove '' @ BestMoveString b tree"

text \<open>
  The loop over the successors of the dequeued position: a successor that is not
  interesting is skipped unless the parent's reply was forced, and an unseen one is
  pushed to the front of the queue.
\<close>

fun pushSuccessors ::
  "('t, 'a) DFSEngine \<Rightarrow> bool \<Rightarrow> string list \<Rightarrow> FEN list \<Rightarrow> FEN list \<Rightarrow> error + FEN list" where
  "pushSuccessors b wasForced seenSet [] q = Inr q"
| "pushSuccessors b wasForced seenSet (f # fs) q =
     (case (if wasForced then Inr True else ShouldCheckPosition b f) of
        Inl e \<Rightarrow> Inl e
      | Inr interesting \<Rightarrow>
          if \<not> interesting then pushSuccessors b wasForced seenSet fs q
          else if FENString f \<notin> set seenSet then pushSuccessors b wasForced seenSet fs (f # q)
          else pushSuccessors b wasForced seenSet fs q)"

text \<open>
  The \<open>default\<close> branch of the \<open>select\<close> with a non-empty queue, up to the node-cap
  test: the state after the expansion of the front position.
\<close>

definition expandFront ::
  "('t, 'a) DFSEngine \<Rightarrow> 't SearchState \<Rightarrow> error + 't SearchState" where
  "expandFront b s =
     (let nodes' = nodes s + 1;
          game = hd (queue s);
          q1 = tl (queue s);
          len = (of_nat (length (Line game)) :: 64 word);
          tree1 = (if word_sless len (depth s) then UpdateBestLine b (evalTree s) else evalTree s);
          seen' = FENString game # seen s
      in case scorePosition b game of
           Inl e \<Rightarrow> Inl e
         | Inr score \<Rightarrow>
             (let tree2 = Insert b tree1 (Line game) score in
              case (if word_sless len (SelDepth b) then
                      (case NextFENs game of
                         Inl e \<Rightarrow> Inl e
                       | Inr nextFENs \<Rightarrow>
                           pushSuccessors b (length nextFENs = 1) seen' nextFENs q1)
                    else Inr q1) of
                Inl e \<Rightarrow> Inl e
              | Inr q2 \<Rightarrow>
                  Inr (s\<lparr>seen := seen', evalTree := tree2, depth := len, nodes := nodes',
                         queue := q2\<rparr>)))"

text \<open>
  One iteration of the loop, given the branch of the \<open>select\<close> that fires. The result
  says whether the loop has ended.
\<close>

definition iteration ::
  "('t, 'a) DFSEngine \<Rightarrow> 64 word \<Rightarrow> event \<Rightarrow> 't SearchState \<Rightarrow> error + ('t SearchState \<times> bool)" where
  "iteration b maxNodes ev s =
     (case ev of
        Cancelled \<Rightarrow>
          Inr (s\<lparr>outputs := outputs s @ [bestmoveLine b (evalTree s)]\<rparr>, True)
      | TimerFired \<Rightarrow>
          (let tot = totalNodes s + nodes s in
           Inr (s\<lparr>totalNodes := tot, nodes := 0,
                  outputs := outputs s
                    @ [infoLine (nodes s) tot (depth s) @ '' queue ''
                         @ Itoa (int (length (queue s)))]
                    @ [PVLine b (evalTree s)]\<rparr>, False))
      | Idle \<Rightarrow>
          if length (queue s) > 0 then
            (case expandFront b s of
               Inl e \<Rightarrow> Inl e
             | Inr s1 \<Rightarrow>
                 if word_sless 0 maxNodes \<and> word_sle maxNodes (totalNodes s1 + nodes s1) then
                   Inr (s1\<lparr>outputs := outputs s1
                          @ [infoLine (nodes s1) (totalNodes s1) (depth s1)]
                          @ [bestmoveLine b (evalTree s1)]\<rparr>, True)
                 else Inr (s1, False))
          else
            Inr (s\<lparr>outputs := outputs s
                   @ [PVLine b (evalTree s)]
                   @ [infoLine (nodes s) (totalNodes s) (depth s)]
                   @ [bestmoveLine b (evalTree s)]\<rparr>, True))"

text \<open>
  The loop, driven by the sequence of branches the \<open>select\<close> takes. It stops consuming
  the sequence at the first iteration that ends the loop.
\<close>

fun runLoop ::
  "('t, 'a) DFSEngine \<Rightarrow> 64 word \<Rightarrow> event list \<Rightarrow> 't SearchState \<Rightarrow> error + ('t SearchState \<times> bool)" where
  "runLoop b maxNodes [] s = Inr (s, False)"
| "runLoop b maxNodes (ev # evs) s =
     (case iteration b maxNodes ev s of
        Inl e \<Rightarrow> Inl e
      | Inr (s', ended) \<Rightarrow> if ended then Inr (s', True) else runLoop b maxNodes evs s')"

text \<open>The standard opening position, as \<open>ParseFEN\<close> builds it.\<close>

definition startBoard :: "Piece list" where
  "startBoard = ''RNBQKBNR'' @ ''PPPPPPPP'' @ replicate 32 NoPiece @ ''pppppppp'' @ ''rnbqkbnr''"

definition startPieces :: PiecePositions where
  "startPieces = (\<lambda>c k.
     if c = White then
       (if k = Pawn then [8, 9, 10, 11, 12, 13, 14, 15]
        else if k = Knight then [1, 6] else if k = Bishop then [2, 5]
        else if k = Rook then [0, 7] else if k = Queen then [3]
        else if k = King then [4] else [])
     else if c = Black then
       (if k = Pawn then [48, 49, 50, 51, 52, 53, 54, 55]
        else if k = Knight then [57, 62] else if k = Bishop then [58, 61]
        else if k = Rook then [56, 63] else if k = Queen then [59]
        else if k = King then [60] else [])
     else [])"

definition startFEN :: FEN where
  "startFEN = \<lparr>Board = startBoard, Pieces = startPieces, ToMove = White,
                WhiteCastleStatus = Both, BlackCastleStatus = Both,
                EnPassantVulnerable = NoPosition, HalfmoveClock = 0, Fullmove = 1,
                Line = []\<rparr>"

definition openingText :: string where
  "openingText = ''rnbqkbnr/pppppppp/8/8/8/8/PPPPPPPP/RNBQKBNR w KQkq - 0 1''"

text \<open>White rook a1 and king e1 against the bare black king on e8, White to move.\<close>

definition rookText :: string where
  "rookText = ''4k3/8/8/8/8/8/8/R3K3 w - - 0 1''"

text \<open>
  The black king on e8 is attacked by the rook on e1 and by the bishop on b5, Black to
  move.
\<close>

definition doubleCheckText :: string where
  "doubleCheckText = ''4k3/8/8/1B6/8/8/8/4R1K1 b - - 0 1''"

definition doubleCheckFEN :: FEN where
  "doubleCheckFEN = projr (ParseFEN doubleCheckText)"

text \<open>
  The data-model invariant of the spec, in the direction the check detection relies on:
  every square the index lists for a colour and a kind holds, on the board, a piece of
  that colour and kind.
\<close>

definition indexAgrees :: "FEN \<Rightarrow> bool" where
  "indexAgrees f =
     list_all (\<lambda>c.
        list_all (\<lambda>k.
           list_all (\<lambda>p. p < length (Board f) \<and> Piece_Color (Board f ! p) = c \<and>
                          ToNormalizedPiece (Board f ! p) = k)
             (Positions (Pieces f) c k))
          [Pawn, Knight, Bishop, Rook, Queen, King])
       [White, Black]"

text \<open>
  Two squares of the board on one file, rank or diagonal: \<open>p\<close> lies \<open>k\<close> unit steps
  \<open>(df, dr)\<close> away from \<open>t\<close>.
\<close>

definition onLine :: "Position \<Rightarrow> Position \<Rightarrow> bool" where
  "onLine p t = (p < 64 \<and> t < 64 \<and>
     (\<exists>k df dr. 1 \<le> k \<and> k \<le> 7 \<and> df \<in> {-1, 0, 1} \<and> dr \<in> {-1, 0, 1} \<and> (df, dr) \<noteq> (0, 0) \<and>
        int (p mod 8) = int (t mod 8) + k * df \<and> int (p div 8) = int (t div 8) + k * dr))"

text \<open>The black king on e8 is attacked by the rook on e1 alone, Black to move.\<close>

definition singleCheckText :: string where
  "singleCheckText = ''4k3/8/8/8/8/8/8/4R1K1 b - - 0 1''"

definition singleCheckFEN :: FEN where
  "singleCheckFEN = projr (ParseFEN singleCheckText)"

text \<open>
  An example engine: two material evaluators, a tree that records the inserted lines in
  order and reports the first move of the first line, and a position one ply after the
  opening at the front of the queue.
\<close>

definition moveText :: "Move \<Rightarrow> string" where
  "moveText m = Itoa (int (From m)) @ ''-'' @ Itoa (int (To m))"

definition demoEngine :: "((Move list \<times> int) list, int) DFSEngine" where
  "demoEngine =
     \<lparr>Evaluators = [\<lambda>f. int (length (Pieces f White Pawn)) - int (length (Pieces f Black Pawn)),
                     \<lambda>f. int (length (Pieces f White Queen)) * 9],
      SelDepth = 1,
      fadd = (\<lambda>x y. x + y), fmul = (\<lambda>x y. x * y), flit = (\<lambda>i. i),
      IsDraw = (\<lambda>f. False),
      InCheck = (\<lambda>f. case detectChecks f of Inr (c # cs) \<Rightarrow> True | _ \<Rightarrow> False),
      UpdateBestLine = (\<lambda>t. t),
      Insert = (\<lambda>t line score. t @ [(line, score)]),
      BestMoveString = (\<lambda>t. case t of [] \<Rightarrow> ''0000'' | (line, score) # rest \<Rightarrow>
                          (case line of [] \<Rightarrow> ''0000'' | m # ms \<Rightarrow> moveText m)),
      PVLine = (\<lambda>t. ''info depth '' @ Itoa (int (length t)))\<rparr>"

definition demoState :: "(Move list \<times> int) list SearchState" where
  "demoState =
     \<lparr>seen = [], evalTree = [([NewMove 12 28], 0)], depth = 2, nodes = 0, totalNodes = 0,
      queue = [projr (ApplyMove startFEN (NewMove 12 28)), startFEN], outputs = []\<rparr>"

text \<open>
  A text whose seventh rank holds nine cells: the parser writes the ninth, a white rook,
  onto a8, where the knight of the eighth rank was written before, and lists a8 for both
  kinds. The black king on c7 is to move.
\<close>

definition corruptText :: string where
  "corruptText = ''N7/2k4pR/8/8/8/8/8/4K3 b - - 0 1''"

definition corruptFEN :: FEN where
  "corruptFEN = projr (ParseFEN corruptText)"

section \<open>ApplyMove on a store\<close>

text \<open>
  The receiver of \<open>ApplyMove\<close> is a pointer, and its board, its line and its index are
  reference values. To state what \<open>ApplyMove\<close> writes, the objects live in a store: a
  list of cells, the address of a cell being its place in the list. A position is a
  \<open>FENCell\<close> whose board, index and line fields are addresses; \<open>make\<close> and
  \<open>&FEN{}\<close> append a fresh cell, an assignment to an element or a field replaces the
  cell at the address written through. \<open>PiecePositions.ApplyMove\<close> is modelled from the
  spec as above: it builds the updated index as a new value.
\<close>

type_synonym addr = nat

record FENptr =
  boardRef :: "addr option"
  piecesRef :: "addr option"
  toMove :: Color
  whiteCastle :: CastleStatus
  blackCastle :: CastleStatus
  enPassant :: Position
  halfmove :: "64 word"
  fullmove :: "64 word"
  lineRef :: "addr option"

datatype cell =
    PieceArray "Piece list"
  | MoveArray "Move option list"
  | IndexCell PiecePositions
  | FENCell FENptr

type_synonym store = "cell list"




definition readPieceArray :: "store \<Rightarrow> addr option \<Rightarrow> Piece list" where
  "readPieceArray h r =
     (case r of
        None \<Rightarrow> []
      | Some a \<Rightarrow> (if a < length h then (case h ! a of PieceArray xs \<Rightarrow> xs | _ \<Rightarrow> []) else []))"

definition readMoveArray :: "store \<Rightarrow> addr option \<Rightarrow> Move option list" where
  "readMoveArray h r =
     (case r of
        None \<Rightarrow> []
      | Some a \<Rightarrow> (if a < length h then (case h ! a of MoveArray xs \<Rightarrow> xs | _ \<Rightarrow> []) else []))"
















section \<open>Properties of ApplyMove\<close>

lemma ApplyMove_Inr_iff:
  "(\<exists>r. ApplyMove f m = Inr r) \<longleftrightarrow>
     (64 \<le> length (Board f) \<and> From m < 64 \<and> To m < 64 \<and>
      (\<exists>w b. castleSwitch (Board f ! From m) m (WhiteCastleStatus f) (BlackCastleStatus f) = Inr (w, b)))"
  by (auto simp: ApplyMove_def Let_def split: sum.splits prod.splits)

lemma castleSwitch_Inl_iff:
  "(\<exists>e. castleSwitch p m w b = Inl e) \<longleftrightarrow>
     ((p = WhiteKing \<and> From m = E1 \<and> To m = G1 \<and> w \<noteq> Kingside \<and> w \<noteq> Both) \<or>
      (p = WhiteKing \<and> From m = E1 \<and> To m = C1 \<and> w \<noteq> Queenside \<and> w \<noteq> Both) \<or>
      (p = BlackKing \<and> From m = E8 \<and> To m = G8 \<and> b \<noteq> Kingside \<and> b \<noteq> Both) \<or>
      (p = BlackKing \<and> From m = E8 \<and> To m = C8 \<and> b \<noteq> Queenside \<and> b \<noteq> Both))"
  by (auto simp: castleSwitch_def split: CastleStatus.splits)

lemma ApplyMove_fields:
  "ApplyMove f m = Inr r \<Longrightarrow>
     HalfmoveClock r = HalfmoveClock f + 1 \<and>
     Fullmove r = (if ToMove f = Black then Fullmove f + 1 else Fullmove f) \<and>
     Line r = Line f @ [m] \<and>
     ToMove r = Opposite (ToMove f) \<and>
     EnPassantVulnerable r = NoPosition"
  by (auto simp: ApplyMove_def Let_def split: sum.splits prod.splits if_splits)


text \<open>
  Claim C5, as amended. Whenever the move's squares lie on the 64-slot board and no
  castle panic is reached, \<open>ApplyMove\<close> returns a position whose halfmove clock is the
  receiver's plus
  one, whose fullmove number is the receiver's plus one exactly when Black was to move
  (unchanged otherwise), whose line is the receiver's with the move appended, and whose
  side to move is the opposite of the receiver's.
\<close>

theorem ApplyMove_advances_clocks_line_and_side:
  assumes "onBoard f m" and "\<not> illegalCastle f m"
  shows "\<exists>r. ApplyMove f m = Inr r \<and>
           HalfmoveClock r = HalfmoveClock f + 1 \<and>
           Fullmove r = (if ToMove f = Black then Fullmove f + 1 else Fullmove f) \<and>
           Line r = Line f @ [m] \<and>
           ToMove r = Opposite (ToMove f)"
proof -
  have "\<not> (\<exists>e. castleSwitch (Board f ! From m) m (WhiteCastleStatus f) (BlackCastleStatus f) = Inl e)"
    using assms(2) unfolding castleSwitch_Inl_iff illegalCastle_def by blast
  then obtain w b where
    "castleSwitch (Board f ! From m) m (WhiteCastleStatus f) (BlackCastleStatus f) = Inr (w, b)"
    by (cases "castleSwitch (Board f ! From m) m (WhiteCastleStatus f) (BlackCastleStatus f)") auto
  with assms(1) have "\<exists>r. ApplyMove f m = Inr r"
    unfolding ApplyMove_Inr_iff onBoard_def by auto
  then obtain r where r: "ApplyMove f m = Inr r" ..
  from ApplyMove_fields [OF r] r show ?thesis by blast
qed

theorem ApplyMove_advances_clocks_line_and_side_witness:
  "\<exists>r. ApplyMove (startFEN\<lparr>ToMove := Black\<rparr>) (NewMove 52 36) = Inr r \<and>
        HalfmoveClock r = 1 \<and> Fullmove r = 2 \<and>
        Line r = [NewMove 52 36] \<and> ToMove r = White"
  using ApplyMove_advances_clocks_line_and_side
          [of "startFEN\<lparr>ToMove := Black\<rparr>" "NewMove 52 36"]
  by (simp add: onBoard_def illegalCastle_def startFEN_def startBoard_def NewMove_def)

text \<open>
  \<open>ApplyMove\<close> does not return a position for every move: with Black to move and
  only the kingside right left, the black king going from e8 to c8 ends in the castle
  panic.
\<close>

theorem ApplyMove_returns_no_position_for_illegal_castle:
  "onBoard (startFEN\<lparr>ToMove := Black, BlackCastleStatus := Kingside\<rparr>) (NewMove E8 C8) \<and>
   ApplyMove (startFEN\<lparr>ToMove := Black, BlackCastleStatus := Kingside\<rparr>) (NewMove E8 C8)
     = Inl InvalidCastle"
proof -
  let ?f = "startFEN\<lparr>ToMove := Black, BlackCastleStatus := Kingside\<rparr>"
  have "onBoard ?f (NewMove E8 C8)" by code_simp
  moreover have "(case ApplyMove ?f (NewMove E8 C8) of Inl e \<Rightarrow> e = InvalidCastle | Inr r \<Rightarrow> False)"
    by code_simp
  then have "ApplyMove ?f (NewMove E8 C8) = Inl InvalidCastle"
    by (simp split: sum.splits)
  ultimately show ?thesis by simp
qed

text \<open>
  Claim C9. For a move whose squares lie on the 64-slot board, \<open>ApplyMove\<close> aborts
  exactly when the moving piece is the white king going from e1 to g1 (c1) while
  White's status is neither Kingside (Queenside) nor Both, or the black king going from
  e8 to g8 (c8) while Black's status is neither Kingside (Queenside) nor Both; the abort
  is then the castle panic, and with the right held the move is applied.
\<close>

theorem ApplyMove_aborts_iff_illegal_castle:
  assumes "onBoard f m"
  shows "((\<exists>e. ApplyMove f m = Inl e) \<longleftrightarrow> illegalCastle f m) \<and>
         (ApplyMove f m = Inl InvalidCastle \<longleftrightarrow> illegalCastle f m) \<and>
         ((\<exists>r. ApplyMove f m = Inr r) \<longleftrightarrow> \<not> illegalCastle f m)"
proof -
  let ?cs = "castleSwitch (Board f ! From m) m (WhiteCastleStatus f) (BlackCastleStatus f)"
  have ill: "illegalCastle f m \<longleftrightarrow> (\<exists>e. ?cs = Inl e)"
    unfolding castleSwitch_Inl_iff illegalCastle_def by blast
  have only: "?cs = Inl e \<Longrightarrow> e = InvalidCastle" for e
    by (auto simp: castleSwitch_def split: if_splits CastleStatus.splits)
  have ret: "(\<exists>r. ApplyMove f m = Inr r) \<longleftrightarrow> (\<exists>w b. ?cs = Inr (w, b))"
    using assms unfolding ApplyMove_Inr_iff onBoard_def by auto
  have nth: "take 64 (Board f) ! From m = Board f ! From m"
    using assms by (simp add: onBoard_def)
  have err: "ApplyMove f m = Inl e \<longleftrightarrow> ?cs = Inl e" for e
    using assms nth
    by (auto simp: ApplyMove_def onBoard_def Let_def split: sum.splits prod.splits)
  have c3: "(\<exists>r. ApplyMove f m = Inr r) \<longleftrightarrow> \<not> illegalCastle f m"
    unfolding ret ill by (cases ?cs) auto
  have c1: "(\<exists>e. ApplyMove f m = Inl e) \<longleftrightarrow> illegalCastle f m"
    unfolding ill using err by blast
  have c2: "ApplyMove f m = Inl InvalidCastle \<longleftrightarrow> illegalCastle f m"
    unfolding ill err using only by blast
  from c1 c2 c3 show ?thesis by blast
qed

theorem ApplyMove_aborts_iff_illegal_castle_witness:
  "onBoard (startFEN\<lparr>WhiteCastleStatus := Queenside\<rparr>) (NewMove E1 G1) \<and>
   illegalCastle (startFEN\<lparr>WhiteCastleStatus := Queenside\<rparr>) (NewMove E1 G1) \<and>
   ApplyMove (startFEN\<lparr>WhiteCastleStatus := Queenside\<rparr>) (NewMove E1 G1) = Inl InvalidCastle"
  using ApplyMove_aborts_iff_illegal_castle
          [of "startFEN\<lparr>WhiteCastleStatus := Queenside\<rparr>" "NewMove E1 G1"]
  by (simp add: onBoard_def illegalCastle_def startFEN_def startBoard_def NewMove_def)

section \<open>Properties of move generation\<close>

lemma opening_counts:
  "(case ParseFEN openingText of
      Inl e \<Rightarrow> False
    | Inr f \<Rightarrow>
        (case ValidMoves f of Inl e \<Rightarrow> False | Inr ms \<Rightarrow> length ms = 20) \<and>
        (case ValidMoves_main f of Inl e \<Rightarrow> False | Inr ms \<Rightarrow> length ms = 20))"
  by code_simp

text \<open>
  Claim C1. The standard opening text parses, and on the parsed position \<open>ValidMoves\<close>
  returns a list of exactly 20 moves; so does the \<open>ValidMoves\<close> of the earlier
  generation.
\<close>

theorem opening_position_has_20_moves:
  "\<exists>f ms ms'. ParseFEN openingText = Inr f \<and>
      ValidMoves f = Inr ms \<and> length ms = 20 \<and>
      ValidMoves_main f = Inr ms' \<and> length ms' = 20"
  using opening_counts by (auto split: sum.splits)

lemma kingEscapes_origin:
  "m \<in> set (kingEscapes f) \<Longrightarrow> From m \<in> set (Positions (Pieces f) (ToMove f) King)"
  by (auto simp: kingEscapes_def NewMove_def)

lemma validMovesInCheck_not_single:
  "length checks \<noteq> 1 \<Longrightarrow> validMovesInCheck f checks = Inr (kingEscapes f)"
  by (simp add: validMovesInCheck_def)

text \<open>
  Claim C2. When two or more checks on the king of the side to move are detected, every
  move \<open>ValidMoves\<close> returns starts on a square of that side's king list, the list whose
  first entry is the king's square.
\<close>

theorem double_check_only_king_moves:
  assumes "detectChecks f = Inr checks" and "2 \<le> length checks"
    and "ValidMoves f = Inr ms" and "m \<in> set ms"
  shows "From m \<in> set (Positions (Pieces f) (ToMove f) King)"
proof -
  from assms(2) have "checks \<noteq> []" by auto
  with assms(1,3) have "validMovesInCheck f checks = Inr ms"
    by (simp add: ValidMoves_def)
  with assms(2) have "ms = kingEscapes f"
    by (simp add: validMovesInCheck_not_single)
  with assms(4) show ?thesis
    by (simp add: kingEscapes_origin)
qed

theorem double_check_only_king_moves_witness:
  "detectChecks doubleCheckFEN = Inr [NewMove 33 60, NewMove 4 60] \<and>
   ValidMoves doubleCheckFEN = Inr [NewMove 60 61, NewMove 60 53, NewMove 60 59] \<and>
   Positions (Pieces doubleCheckFEN) (ToMove doubleCheckFEN) King = [60] \<and>
   From (NewMove 60 53) \<in> set (Positions (Pieces doubleCheckFEN) (ToMove doubleCheckFEN) King)"
proof -
  have c: "detectChecks doubleCheckFEN = Inr [NewMove 33 60, NewMove 4 60]"
    by code_simp
  have v: "ValidMoves doubleCheckFEN = Inr [NewMove 60 61, NewMove 60 53, NewMove 60 59]"
    by code_simp
  have k: "Positions (Pieces doubleCheckFEN) (ToMove doubleCheckFEN) King = [60]"
    by code_simp
  from double_check_only_king_moves [OF c _ v, of "NewMove 60 53"] c v k
  show ?thesis by simp
qed

lemma rook_moves_differ:
  "(case ParseFEN rookText of
      Inl e \<Rightarrow> False
    | Inr f \<Rightarrow>
        (case ValidMoves f of
           Inl e \<Rightarrow> False
         | Inr ms \<Rightarrow> length ms = 15 \<and> NewMove 0 16 \<in> set ms) \<and>
        (case ValidMoves_main f of
           Inl e \<Rightarrow> False
         | Inr ms \<Rightarrow> length ms = 7 \<and> NewMove 0 16 \<notin> set ms))"
  by code_simp

text \<open>
  Claim C10. The two generations of \<open>ValidMoves\<close> do not return the same set of moves
  on every position: with a white rook on a1 and an open a-file, the later generation
  returns the rook move a1-a3 among 15 moves, the earlier one returns 7 moves without it,
  because its loop over a ray of a sliding piece ends after the first square.
\<close>

theorem generations_differ_on_open_file:
  "\<exists>f ms ms'. ParseFEN rookText = Inr f \<and>
      ValidMoves f = Inr ms \<and> ValidMoves_main f = Inr ms' \<and>
      length ms = 15 \<and> length ms' = 7 \<and>
      NewMove 0 16 \<in> set ms \<and> NewMove 0 16 \<notin> set ms' \<and> set ms \<noteq> set ms'"
  using rook_moves_differ by (auto split: sum.splits)

section \<open>The interposition walk\<close>

lemma square_inside:
  assumes "inside fl rk"
  shows "int (square fl rk mod 8) = fl" "int (square fl rk div 8) = rk" "square fl rk < 64"
  using assms unfolding inside_def square_def
  by (auto simp: zmod_int zdiv_int nat_less_iff)

lemma rayFrom_target:
  assumes "t \<in> set (rayFrom p d)"
  shows "\<exists>k. 1 \<le> k \<and> k \<le> 7 \<and> inside (int (p mod 8) + k * fst d) (int (p div 8) + k * snd d) \<and>
             t = square (int (p mod 8) + k * fst d) (int (p div 8) + k * snd d)"
proof -
  from assms obtain k where k: "k \<in> set (takeWhile (\<lambda>k. inside (int (p mod 8) + k * fst d) (int (p div 8) + k * snd d)) [1, 2, 3, 4, 5, 6, 7])"
    and t: "t = square (int (p mod 8) + k * fst d) (int (p div 8) + k * snd d)"
    unfolding rayFrom_def by auto
  from set_takeWhileD [OF k] have "k \<in> set [1, 2, 3, 4, 5, 6, 7]" and "inside (int (p mod 8) + k * fst d) (int (p div 8) + k * snd d)"
    by blast+
  then have "1 \<le> k \<and> k \<le> 7" by auto
  with t \<open>inside _ _\<close> show ?thesis by blast
qed

lemma jumps_target:
  assumes "t \<in> set (jumps p ds)"
  shows "\<exists>df dr. (df, dr) \<in> set ds \<and> inside (int (p mod 8) + df) (int (p div 8) + dr) \<and>
             t = square (int (p mod 8) + df) (int (p div 8) + dr)"
  using assms unfolding jumps_def by auto

lemma blockWalk_reaches:
  "step \<noteq> 0 \<Longrightarrow> i + n \<le> 7 \<Longrightarrow>
     \<exists>bs. blockWalk board (pos + int n * step) step pos i blocks = Inr (blocks @ bs) \<and>
          length bs = n \<and> (0 < n \<longrightarrow> last bs = pos + int n * step)"
proof (induction n arbitrary: pos i blocks)
  case 0
  then show ?case by (subst blockWalk.simps) simp
next
  case (Suc n)
  have ne: "pos \<noteq> pos + int (Suc n) * step" using Suc.prems(1) by simp
  have eq: "pos + int (Suc n) * step = (pos + step) + int n * step" by (simp add: algebra_simps)
  from Suc.prems have i: "Suc i + n \<le> 7" by simp
  from Suc.IH [OF Suc.prems(1) i, of "pos + step" "blocks @ [pos + step]"]
  obtain bs where bs: "blockWalk board (pos + step + int n * step) step (pos + step) (Suc i) (blocks @ [pos + step])
        = Inr ((blocks @ [pos + step]) @ bs)" "length bs = n" "0 < n \<longrightarrow> last bs = pos + step + int n * step"
    by blast
  have "blockWalk board (pos + int (Suc n) * step) step pos i blocks = Inr (blocks @ ((pos + step) # bs))"
    using ne i bs(1) unfolding eq
    by (subst blockWalk.simps) (simp add: Let_def)
  moreover have "length ((pos + step) # bs) = Suc n" using bs(2) by simp
  moreover have "last ((pos + step) # bs) = pos + int (Suc n) * step"
    using bs(2,3) by (cases n) (auto simp: algebra_simps)
  ultimately show ?case by blast
qed

lemma maxDiff_unit:
  fixes k df dr :: int
  assumes k: "1 \<le> k" and u: "df \<in> {-1, 0, 1}" "dr \<in> {-1, 0, 1}" "(df, dr) \<noteq> (0, 0)"
  shows "(if k * dr > (if k * df < 0 then k * df * -1 else k * df) then k * dr
          else if k * dr * -1 > (if k * df < 0 then k * df * -1 else k * df) then k * dr * -1
          else (if k * df < 0 then k * df * -1 else k * df)) = k"
  using assms by auto

lemma quot_unit:
  fixes k d :: int
  assumes "1 \<le> k" and "d \<in> {-1, 0, 1}"
  shows "quot (k * d) k = d"
  using assms by (auto simp: quot_def sgn_if)

lemma checkStep_on_line:
  assumes p: "p < 64" and t: "t < 64" and k: "1 \<le> k"
    and u: "df \<in> {-1, 0, 1}" "dr \<in> {-1, 0, 1}" "(df, dr) \<noteq> (0, 0)"
    and fl: "int (p mod 8) = int (t mod 8) + k * df"
    and rk: "int (p div 8) = int (t div 8) + k * dr"
  shows "checkStep \<lparr>From = p, To = t, Promote = x\<rparr> = Inr (df + dr * 8)"
proof -
  have gf: "int (GetFile p) - int (GetFile t) = k * df"
    using fl by (simp add: GetFile_def) 
  have "p div 8 < 8" "t div 8 < 8" using p t by auto
  then have gr: "int (GetRank p) - int (GetRank t) = k * dr"
    using rk by (simp add: GetRank_def)
  have k0: "k \<noteq> 0" using k by simp
  show ?thesis
    unfolding checkStep_def Let_def
    by (simp only: Move.simps gf gr maxDiff_unit [OF k u] quot_unit [OF k u(1)] quot_unit [OF k u(2)] k0 if_False)
qed

lemma walkLine_origin:
  "m \<in> set (walkLine cond board p line) \<Longrightarrow> From m = p \<and> To m \<in> set line"
  by (induction line) (auto simp: NewMove_def split: if_splits)

lemma pawnHits_origin:
  "m \<in> set (pawnHits cond color p) \<Longrightarrow> From m = p \<and> To m \<in> set (PawnAttacks color p)"
  by (auto simp: pawnHits_def Let_def NewMove_def ToPromotions_def split: if_splits option.splits)

lemma GetAttacksOnCondition_origin:
  assumes "m \<in> set (GetAttacksOnCondition f cond color)"
  shows "(From m \<in> set (Positions (Pieces f) color Pawn) \<and> To m \<in> set (PawnAttacks color (From m))) \<or>
         (From m \<in> set (Positions (Pieces f) color Knight)) \<or>
         (\<exists>piece \<in> {Bishop, Rook, Queen}. From m \<in> set (Positions (Pieces f) color piece) \<and>
            (\<exists>line \<in> set (MoveVectors piece (From m)). To m \<in> set line))"
  using assms unfolding GetAttacksOnCondition_def
  by (auto simp: NewMove_def dest!: pawnHits_origin walkLine_origin)

lemma unit_dirs:
  "d \<in> set diagonalDirs \<union> set lineDirs \<Longrightarrow>
     - fst d \<in> {-1, 0, 1} \<and> - snd d \<in> {-1, 0, 1} \<and> (- fst d, - snd d) \<noteq> (0, 0)"
  by (auto simp: diagonalDirs_def lineDirs_def)

lemma MoveVectors_rays:
  "line \<in> set (MoveVectors piece p) \<Longrightarrow>
     p < 64 \<and> (\<exists>d \<in> set diagonalDirs \<union> set lineDirs. line = rayFrom p d)"
  by (auto simp: MoveVectors_def GetDiagonals_def GetLines_def split: if_splits)

lemma PawnAttacks_jumps:
  "t \<in> set (PawnAttacks c p) \<Longrightarrow>
     p < 64 \<and> t \<in> set (jumps p [(-1, 1), (1, 1), (1, -1), (-1, -1)])"
  by (auto simp: PawnAttacks_def jumps_def split: if_splits)

lemma ray_onLine:
  assumes "p < 64" "d \<in> set diagonalDirs \<union> set lineDirs" "t \<in> set (rayFrom p d)"
  shows "onLine p t"
proof -
  from rayFrom_target [OF assms(3)] obtain k where k: "1 \<le> k" "k \<le> 7"
    and ins: "inside (int (p mod 8) + k * fst d) (int (p div 8) + k * snd d)"
    and t: "t = square (int (p mod 8) + k * fst d) (int (p div 8) + k * snd d)" by blast
  from square_inside [OF ins] t have
    "int (t mod 8) = int (p mod 8) + k * fst d" "int (t div 8) = int (p div 8) + k * snd d" "t < 64"
    by simp_all
  then have "int (p mod 8) = int (t mod 8) + k * (- fst d)" "int (p div 8) = int (t div 8) + k * (- snd d)"
    by simp_all
  with unit_dirs [OF assms(2)] k assms(1) \<open>t < 64\<close> show ?thesis
    unfolding onLine_def by blast
qed

lemma pawn_onLine:
  assumes "t \<in> set (PawnAttacks c p)"
  shows "onLine p t"
proof -
  from PawnAttacks_jumps [OF assms] have p: "p < 64"
    and j: "t \<in> set (jumps p [(-1, 1), (1, 1), (1, -1), (-1, -1)])" by simp_all
  from jumps_target [OF j] obtain df dr where d: "(df, dr) \<in> set [(-1, 1), (1, 1), (1, -1), (-1, -1)]"
    and ins: "inside (int (p mod 8) + df) (int (p div 8) + dr)"
    and t: "t = square (int (p mod 8) + df) (int (p div 8) + dr)" by blast
  from square_inside [OF ins] t have
    "int (t mod 8) = int (p mod 8) + df" "int (t div 8) = int (p div 8) + dr" "t < 64"
    by simp_all
  then have "int (p mod 8) = int (t mod 8) + 1 * (- df)" "int (p div 8) = int (t div 8) + 1 * (- dr)"
    by simp_all
  moreover from d have "- df \<in> {-1, 0, 1}" "- dr \<in> {-1, 0, 1}" "(- df, - dr) \<noteq> (0, 0)" by auto
  ultimately show ?thesis using p \<open>t < 64\<close>
    unfolding onLine_def by (intro conjI exI [of _ "1::int"] exI [of _ "- df"] exI [of _ "- dr"]) simp_all
qed

lemma blockSquares_onLine:
  assumes "onLine (From check) (To check)"
  shows "\<exists>blocks. blockSquares board check = Inr blocks \<and> blocks \<noteq> [] \<and> length blocks \<le> 7 \<and>
           last blocks = int (From check)"
proof -
  from assms obtain k df dr where p: "From check < 64" and t: "To check < 64"
    and k: "1 \<le> k" "k \<le> 7" and u: "df \<in> {-1, 0, 1}" "dr \<in> {-1, 0, 1}" "(df, dr) \<noteq> (0, 0)"
    and fl: "int (From check mod 8) = int (To check mod 8) + k * df"
    and rk: "int (From check div 8) = int (To check div 8) + k * dr"
    unfolding onLine_def by blast
  have c: "check = \<lparr>From = From check, To = To check, Promote = Promote check\<rparr>" by simp
  have st: "checkStep check = Inr (df + dr * 8)"
    by (subst c) (rule checkStep_on_line [OF p t k(1) u fl rk])
  have nz: "df + dr * 8 \<noteq> 0" using u by auto
  have "int (From check) = int (From check div 8) * 8 + int (From check mod 8)"
    by presburger
  also have "\<dots> = (int (To check div 8) * 8 + int (To check mod 8)) + k * (df + dr * 8)"
    using fl rk by (simp add: algebra_simps)
  also have "int (To check div 8) * 8 + int (To check mod 8) = int (To check)"
    by presburger
  finally have pos: "int (From check) = int (To check) + int (nat k) * (df + dr * 8)"
    using k by simp
  from k have n: "0 + nat k \<le> 7" "0 < nat k" by simp_all
  from blockWalk_reaches [OF nz n(1), of board "int (To check)" "[]"]
  obtain bs where bs: "blockWalk board (int (To check) + int (nat k) * (df + dr * 8)) (df + dr * 8) (int (To check)) 0 [] = Inr ([] @ bs)"
    "length bs = nat k" "0 < nat k \<longrightarrow> last bs = int (To check) + int (nat k) * (df + dr * 8)"
    by (elim exE conjE)
  have "blockSquares board check = Inr bs"
    using bs(1) by (simp add: blockSquares_def st pos)
  moreover have "bs \<noteq> []" using bs(2) n(2) by auto
  moreover have "length bs \<le> 7" using bs(2) k by simp
  moreover have "last bs = int (From check)" using bs(3) n(2) pos by simp
  ultimately show ?thesis by blast
qed

text \<open>
  Claim C4, as amended. In a position whose index agrees with its board, for a single
  detected check whose checking piece is not a knight, the walk from the king's square
  reaches the checker's square after at most 7 steps: the step-count panic is not
  reached and \<open>validMovesInCheck\<close> returns.
\<close>

theorem block_walk_within_bound:
  assumes det: "detectChecks f = Inr [check]"
    and nk: "ToNormalizedPiece (Board f ! From check) \<noteq> Knight"
    and agree: "indexAgrees f"
  shows "\<exists>blocks. blockSquares (Board f) check = Inr blocks \<and> blocks \<noteq> [] \<and>
           length blocks \<le> 7 \<and> last blocks = int (From check) \<and>
           validMovesInCheck f [check] =
             Inr (kingEscapes f @ GetAttacksOnCondition f (\<lambda>p. int p \<in> set blocks) (ToMove f))"
proof -
  let ?c = "Opposite (ToMove f)"
  from det obtain kingPos where
    "filter (\<lambda>attack. To attack = kingPos) (GetIncomingAttacks f) = [check]"
    by (auto simp: detectChecks_def Let_def split: if_splits option.splits)
  then have "check \<in> set (filter (\<lambda>attack. To attack = kingPos) (GetIncomingAttacks f))"
    by simp
  then have "check \<in> set (GetIncomingAttacks f)"
    by simp
  then have m: "check \<in> set (GetAttacksOnCondition f
      (\<lambda>p. Board f ! p \<noteq> NoPiece \<and> Piece_Color (Board f ! p) = Opposite ?c) ?c)"
    by (simp add: GetIncomingAttacks_def GetAttacks_def)
  have c: "?c = White \<or> ?c = Black" by simp
  have notKnight: "From check \<notin> set (Positions (Pieces f) ?c Knight)"
  proof
    assume "From check \<in> set (Positions (Pieces f) ?c Knight)"
    with agree c have "ToNormalizedPiece (Board f ! From check) = Knight"
      unfolding indexAgrees_def by (auto simp: list_all_iff)
    with nk show False by simp
  qed
  from GetAttacksOnCondition_origin [OF m] notKnight
  have "onLine (From check) (To check)"
  proof (elim disjE conjE bexE)
    assume "To check \<in> set (PawnAttacks ?c (From check))"
    then show ?thesis by (rule pawn_onLine)
  next
    fix piece line
    assume "line \<in> set (MoveVectors piece (From check))" and t: "To check \<in> set line"
    from MoveVectors_rays [OF this(1)] obtain d where "From check < 64"
      "d \<in> set diagonalDirs \<union> set lineDirs" "line = rayFrom (From check) d" by blast
    with t show ?thesis by (auto intro: ray_onLine)
  qed simp
  from blockSquares_onLine [OF this, of "Board f"] obtain blocks where
    b: "blockSquares (Board f) check = Inr blocks"
    "blocks \<noteq> []" "length blocks \<le> 7" "last blocks = int (From check)" by blast
  with nk have "validMovesInCheck f [check] =
             Inr (kingEscapes f @ GetAttacksOnCondition f (\<lambda>p. int p \<in> set blocks) (ToMove f))"
    by (simp add: validMovesInCheck_def Let_def)
  with b show ?thesis by blast
qed

theorem block_walk_within_bound_witness:
  "detectChecks singleCheckFEN = Inr [NewMove 4 60] \<and>
   ToNormalizedPiece (Board singleCheckFEN ! 4) \<noteq> Knight \<and>
   indexAgrees singleCheckFEN \<and>
   blockSquares (Board singleCheckFEN) (NewMove 4 60) = Inr [52, 44, 36, 28, 20, 12, 4] \<and>
   (\<exists>ms. validMovesInCheck singleCheckFEN [NewMove 4 60] = Inr ms)"
proof -
  have d: "detectChecks singleCheckFEN = Inr [NewMove 4 60]" by code_simp
  have n: "ToNormalizedPiece (Board singleCheckFEN ! From (NewMove 4 60)) \<noteq> Knight" by code_simp
  have a: "indexAgrees singleCheckFEN" by code_simp
  have b: "blockSquares (Board singleCheckFEN) (NewMove 4 60) = Inr [52, 44, 36, 28, 20, 12, 4]"
    by code_simp
  from block_walk_within_bound [OF d n a] have
    "\<exists>ms. validMovesInCheck singleCheckFEN [NewMove 4 60] = Inr ms" by blast
  with d n a b show ?thesis by (simp add: NewMove_def)
qed

text \<open>
  Without the agreement of index and board the bound can be exceeded. The text with the
  nine-cell rank parses; the only check on the black king comes from the knight list
  (a8 to c7) while the board holds a rook on a8; the unit step is one file to the left,
  the walk leaves c7 along the seventh rank and never meets a8, and the step-count panic
  fires on its eighth step, at c6.
\<close>

theorem block_walk_exceeds_bound_on_corrupt_index:
  "\<not> isl (ParseFEN corruptText) \<and>
   detectChecks corruptFEN = Inr [NewMove 56 50] \<and>
   Board corruptFEN ! 56 = WhiteRook \<and>
   ToNormalizedPiece (Board corruptFEN ! From (NewMove 56 50)) \<noteq> Knight \<and>
   \<not> indexAgrees corruptFEN \<and>
   blockSquares (Board corruptFEN) (NewMove 56 50) = Inl StepBoundExceeded \<and>
   validMovesInCheck corruptFEN [NewMove 56 50] = Inl StepBoundExceeded \<and>
   ValidMoves corruptFEN = Inl StepBoundExceeded"
  by code_simp

section \<open>Properties of the search loop\<close>

text \<open>
  Claim C7. An iteration of the loop that dequeues a position inserts that position's
  line into the evaluation tree with the score 0 when the position is a draw, 58008 when
  it is checkmate, and otherwise the sum of the outputs of all registered evaluators
  (added from left to right, starting at 0), multiplied by -1 exactly when Black is to
  move in that position.
\<close>

theorem loop_scores_dequeued_position:
  assumes "queue s \<noteq> []" and "iteration b maxNodes Idle s = Inr (s1, ended)"
  shows "let game = hd (queue s);
             total = foldl (\<lambda>score eval. fadd b score (eval game)) (flit b 0) (Evaluators b);
             tree = (if word_sless (of_nat (length (Line game))) (depth s)
                     then UpdateBestLine b (evalTree s) else evalTree s)
         in evalTree s1 =
              Insert b tree (Line game)
                (if IsDraw b game then flit b 0
                 else if IsMate game = Inr True then flit b 58008
                 else if ToMove game = Black then fmul b total (flit b (- 1))
                 else total)"
proof -
  from assms obtain s0 where e: "expandFront b s = Inr s0" and t: "evalTree s1 = evalTree s0"
    by (auto simp: iteration_def split: sum.splits if_splits)
  from e obtain score where sc: "scorePosition b (hd (queue s)) = Inr score"
    and ins: "evalTree s0 =
        Insert b (if word_sless (of_nat (length (Line (hd (queue s))))) (depth s)
                  then UpdateBestLine b (evalTree s) else evalTree s)
          (Line (hd (queue s))) score"
    by (auto simp: expandFront_def Let_def split: sum.splits if_splits)
  from sc have "score =
      (if IsDraw b (hd (queue s)) then flit b 0
       else if IsMate (hd (queue s)) = Inr True then flit b 58008
       else if ToMove (hd (queue s)) = Black
            then fmul b (foldl (\<lambda>score eval. fadd b score (eval (hd (queue s)))) (flit b 0)
                           (Evaluators b)) (flit b (- 1))
            else foldl (\<lambda>score eval. fadd b score (eval (hd (queue s)))) (flit b 0)
                   (Evaluators b))"
    by (auto simp: scorePosition_def heuristicScorePosition_def Let_def
          split: sum.splits if_splits)
  with t ins show ?thesis by (simp add: Let_def)
qed

theorem loop_scores_dequeued_position_witness:
  "queue demoState \<noteq> [] \<and> \<not> isl (iteration demoEngine 1 Idle demoState) \<and>
   ToMove (hd (queue demoState)) = Black \<and>
   evalTree (fst (projr (iteration demoEngine 1 Idle demoState)))
     = [([NewMove 12 28], 0), ([NewMove 12 28], - 9)]"
proof -
  let ?X = "iteration demoEngine 1 Idle demoState"
  have q: "queue demoState \<noteq> []" by (simp add: demoState_def)
  have n: "\<not> isl ?X" by code_simp
  then have x: "?X = Inr (fst (projr ?X), snd (projr ?X))" by simp
  have bl: "ToMove (hd (queue demoState)) = Black" by code_simp
  have r: "(let game = hd (queue demoState);
             total = foldl (\<lambda>score eval. fadd demoEngine score (eval game)) (flit demoEngine 0)
                       (Evaluators demoEngine);
             tree = (if word_sless (of_nat (length (Line game))) (depth demoState)
                     then UpdateBestLine demoEngine (evalTree demoState) else evalTree demoState)
         in Insert demoEngine tree (Line game)
                (if IsDraw demoEngine game then flit demoEngine 0
                 else if IsMate game = Inr True then flit demoEngine 58008
                 else if ToMove game = Black then fmul demoEngine total (flit demoEngine (- 1))
                 else total))
        = [([NewMove 12 28], 0), ([NewMove 12 28], - 9)]"
    by code_simp
  from loop_scores_dequeued_position [OF q x] r
  have "evalTree (fst (projr ?X)) = [([NewMove 12 28], 0), ([NewMove 12 28], - 9)]"
    by (simp add: Let_def)
  with q n bl show ?thesis by simp
qed

lemma expandFront_counters:
  assumes "expandFront b s = Inr s1"
  shows "nodes s1 = nodes s + 1 \<and> totalNodes s1 = totalNodes s \<and> outputs s1 = outputs s \<and>
         depth s1 = of_nat (length (Line (hd (queue s))))"
  using assms by (auto simp: expandFront_def Let_def split: sum.splits if_splits)

text \<open>
  Claim C8. With a positive node cap, an iteration that expands the front of the queue
  and then finds the cumulative node count (the total so far plus the nodes of the
  current period, this one included) at or above the cap sends one telemetry line and
  one best-move line and ends the loop: whatever branches would fire afterwards and
  whatever is left in the queue, nothing more is sent.
\<close>

theorem node_cap_ends_loop:
  assumes q: "queue s \<noteq> []" and cap: "word_sless 0 maxNodes"
    and ex: "expandFront b s = Inr s1"
    and reached: "word_sle maxNodes (totalNodes s + (nodes s + 1))"
  shows "runLoop b maxNodes (Idle # evs) s =
           Inr (s1\<lparr>outputs := outputs s @
                   [infoLine (nodes s + 1) (totalNodes s) (of_nat (length (Line (hd (queue s))))),
                    bestmoveLine b (evalTree s1)]\<rparr>, True)"
  using q cap reached expandFront_counters [OF ex] ex
  by (simp add: iteration_def)

theorem node_cap_ends_loop_witness:
  "(case runLoop demoEngine 1 [Idle, Idle, TimerFired] demoState of
      Inl e \<Rightarrow> False
    | Inr (s', ended) \<Rightarrow>
        ended \<and> outputs s' = [''info ns 1 nodes 0 depth 1'', ''bestmove 12-28''] \<and>
        length (queue s') = 1)"
proof -
  let ?s1 = "projr (expandFront demoEngine demoState)"
  have q: "queue demoState \<noteq> []" by (simp add: demoState_def)
  have cap: "word_sless 0 (1 :: 64 word)" by (simp add: word_sless_alt)
  have "\<not> isl (expandFront demoEngine demoState)" by code_simp
  then have ex: "expandFront demoEngine demoState = Inr ?s1" by simp
  have reached: "word_sle (1 :: 64 word) (totalNodes demoState + (nodes demoState + 1))"
    by (simp add: demoState_def word_sle_eq)
  have o: "outputs demoState @
             [infoLine (nodes demoState + 1) (totalNodes demoState)
                (of_nat (length (Line (hd (queue demoState))))),
              bestmoveLine demoEngine (evalTree ?s1)]
           = [''info ns 1 nodes 0 depth 1'', ''bestmove 12-28'']"
    by code_simp
  have l: "length (queue ?s1) = 1" by code_simp
  show ?thesis
    unfolding node_cap_ends_loop [OF q cap ex reached, of "[Idle, TimerFired]"]
    by (simp add: o l)
qed

section \<open>ApplyMove and its receiver\<close>



lemma readPieceArray_last [simp]: "readPieceArray (h @ [PieceArray b]) (Some (length h)) = b"
  by (simp add: readPieceArray_def)


lemma readMoveArray_last [simp]: "readMoveArray (h @ [MoveArray b]) (Some (length h)) = b"
  by (simp add: readMoveArray_def)
















end
